theory Spec2Isabelle
  imports Complex_Main "HOL-Library.Word"
begin

unbundle bit_operations_syntax

section \<open>Values shared by the service layer and the component\<close>

text \<open>
  A thrown JavaScript value. \<open>Error\<close> is \<^verbatim>\<open>new Error(msg)\<close> or a rejection of a remote
  call (whose \<^verbatim>\<open>message\<close> may be missing); \<open>RangeError\<close> is raised by typed-array views;
  \<open>DOMException\<close> carries the exception's name.
\<close>

datatype js_error =
    Error (message: "string option")
  | RangeError (message: "string option")
  | DOMException string (message: "string option")

text \<open>
  A JavaScript number as far as this program computes with it: an exact rational,
  \<open>Infinity\<close> or \<open>NaN\<close>. A 16-bit integer divided by \<open>32768\<close> is a dyadic rational with at most 15
  fractional bits, which both the double of the division and the 32-bit float of the
  channel array hold exactly; so no rounding is modelled.
\<close>

datatype number = Num rat | Infinity | NaN

section \<open>GeminiService.ts: the audio decoder\<close>

subsection \<open>decodeBase64\<close>

text \<open>
  \<^verbatim>\<open>atob\<close> is the platform's decoder: it throws an \<open>InvalidCharacterError\<close> DOMException
  on a string it does not accept and otherwise returns a binary string, every character of
  which is a byte. It is a parameter here (\<open>None\<close> is the throw). A \<open>string\<close> of HOL is a
  list of 8-bit characters, which is what a binary string is.
\<close>

type_synonym Uint8Array = "8 word list"

definition charCodeAt :: "string \<Rightarrow> nat \<Rightarrow> nat" where
  "charCodeAt s i = of_char (s ! i)"

text \<open>
  The loop \<^verbatim>\<open>for (let i = 0; i < binaryString.length; i++) bytes[i] = binaryString.charCodeAt(i)\<close>.
  Storing into a \<^verbatim>\<open>Uint8Array\<close> keeps the value modulo 256 (\<open>of_nat\<close> into \<open>8 word\<close>) and
  ignores an index out of range, as list update does.
\<close>

function decodeBase64_loop :: "string \<Rightarrow> nat \<Rightarrow> Uint8Array \<Rightarrow> Uint8Array" where
  "decodeBase64_loop binaryString i bytes =
     (if i < length binaryString
      then decodeBase64_loop binaryString (Suc i) (bytes[i := of_nat (charCodeAt binaryString i)])
      else bytes)"
  by pat_completeness auto
termination
  by (relation "measure (\<lambda>(binaryString, i, bytes). length binaryString - i)") auto

definition decodeBase64 :: "(string \<Rightarrow> string option) \<Rightarrow> string \<Rightarrow> js_error + Uint8Array" where
  "decodeBase64 atob base64 =
     (case atob base64 of
        None \<Rightarrow> Inl (DOMException ''InvalidCharacterError'' None)
      | Some binaryString \<Rightarrow>
          Inr (decodeBase64_loop binaryString 0 (replicate (length binaryString) 0)))"

subsection \<open>The platform's \<^verbatim>\<open>atob\<close>\<close>

text \<open>
  \<^verbatim>\<open>atob\<close> is not code of the program; the HTML standard defines it as the
  forgiving-base64 decode of the Infra standard, which is transcribed here step by step:
  \<^enum> remove all ASCII whitespace (tab, line feed, form feed, carriage return, space);
  \<^enum> if the length is then a multiple of 4, remove one or two trailing \<open>=\<close>;
  \<^enum> if the length is then 1 modulo 4, fail;
  \<^enum> if a character is left that is not a letter, a digit, \<open>+\<close> or \<open>/\<close>, fail;
  \<^enum> read each character as six bits, most significant first, and emit a byte for every
    eight bits; of a last group of 12 bits the last four are discarded, of a last group of
    18 bits the last two.
  The message of the exception it throws is left to the implementation and nothing in the
  program reads it.
\<close>

definition isAsciiWhitespace :: "char \<Rightarrow> bool" where
  "isAsciiWhitespace c = (of_char c \<in> {9, 10, 12, 13, 32 :: nat})"

definition remove_padding :: "string \<Rightarrow> string" where
  "remove_padding d =
     (if length d mod 4 = 0
      then (case rev d of
              [] \<Rightarrow> d
            | c1 # r1 \<Rightarrow>
                if c1 = CHR ''=''
                then (case r1 of
                        [] \<Rightarrow> rev r1
                      | c2 # r2 \<Rightarrow> if c2 = CHR ''='' then rev r2 else rev r1)
                else d)
      else d)"

text \<open>The value of a character of the base64 alphabet: \<open>A-Z\<close>, \<open>a-z\<close>, \<open>0-9\<close>, \<open>+\<close>, \<open>/\<close>.\<close>

definition base64_value :: "char \<Rightarrow> nat option" where
  "base64_value c =
     (let n = of_char c :: nat
      in if 65 \<le> n \<and> n \<le> 90 then Some (n - 65)
         else if 97 \<le> n \<and> n \<le> 122 then Some (n - 71)
         else if 48 \<le> n \<and> n \<le> 57 then Some (n + 4)
         else if n = 43 then Some 62
         else if n = 47 then Some 63
         else None)"

fun decode_sextets :: "nat list \<Rightarrow> nat list" where
  "decode_sextets (a # b # c # d # rest) =
     (let v = ((a * 64 + b) * 64 + c) * 64 + d
      in (v div 65536) # (v div 256 mod 256) # (v mod 256) # decode_sextets rest)"
| "decode_sextets [a, b, c] =
     (let v = ((a * 64 + b) * 64 + c) div 4
      in [v div 256, v mod 256])"
| "decode_sextets [a, b] = [(a * 64 + b) div 16]"
| "decode_sextets _ = []"

definition forgiving_atob :: "string \<Rightarrow> string option" where
  "forgiving_atob s =
     (let d = remove_padding (filter (\<lambda>c. \<not> isAsciiWhitespace c) s)
      in if length d mod 4 = 1 then None
         else (case those (map base64_value d) of
                 None \<Rightarrow> None
               | Some vs \<Rightarrow> Some (map char_of (decode_sextets vs))))"

subsection \<open>decodeAudioData\<close>

text \<open>
  \<^verbatim>\<open>new Int16Array(data.buffer)\<close> views the bytes as 16-bit integers in the platform's byte
  order, which is little-endian on every platform the program runs on; it throws a
  \<open>RangeError\<close> when the byte length is odd. The array that \<^verbatim>\<open>decodeBase64\<close> returns
  covers its buffer, so the bytes of the buffer are the bytes of the array.
\<close>

fun int16_view :: "8 word list \<Rightarrow> 16 word list" where
  "int16_view (lo # hi # rest) = (ucast lo OR push_bit 8 (ucast hi)) # int16_view rest"
| "int16_view _ = []"

definition Int16Array :: "Uint8Array \<Rightarrow> js_error + 16 word list" where
  "Int16Array buffer =
     (if odd (length buffer) then Inl (RangeError None) else Inr (int16_view buffer))"

text \<open>
  An \<^verbatim>\<open>AudioBuffer\<close> is its channels, each a \<^verbatim>\<open>Float32Array\<close>. The \<^verbatim>\<open>AudioContext\<close> is an
  argument of \<^verbatim>\<open>decodeAudioData\<close>; all the function uses of it is \<^verbatim>\<open>createBuffer\<close>, which
  is therefore a field of the model's context and may reject its arguments.
\<close>

type_synonym AudioBuffer = "number list list"

record AudioContext =
  createBuffer :: "nat \<Rightarrow> number \<Rightarrow> nat \<Rightarrow> js_error + AudioBuffer"

text \<open>
  \<^verbatim>\<open>dataInt16[k] / 32768.0\<close>: a read out of range is \<^verbatim>\<open>undefined\<close>, and
  \<^verbatim>\<open>undefined / 32768.0\<close> is \<open>NaN\<close>.
\<close>

definition sample_div :: "16 word list \<Rightarrow> nat \<Rightarrow> number" where
  "sample_div dataInt16 k =
     (if k < length dataInt16 then Num (of_int (sint (dataInt16 ! k)) / 32768) else NaN)"

text \<open>
  The inner loop \<^verbatim>\<open>for (let i = 0; i < frameCount; i++) channelData[i] = ...\<close>;
  \<open>frameCount\<close> is the quotient \<^verbatim>\<open>dataInt16.length / numChannels\<close>, not rounded. A store
  beyond the end of a typed array is ignored, as list update does.
\<close>

function fill_frames ::
  "16 word list \<Rightarrow> nat \<Rightarrow> rat \<Rightarrow> nat \<Rightarrow> nat \<Rightarrow> number list \<Rightarrow> number list" where
  "fill_frames dataInt16 numChannels frameCount channel i channelData =
     (if of_nat i < frameCount
      then fill_frames dataInt16 numChannels frameCount channel (Suc i)
             (channelData[i := sample_div dataInt16 (i * numChannels + channel)])
      else channelData)"
  by pat_completeness auto
termination
proof (relation "measure (\<lambda>(d, n, frameCount, c, i, cd). nat \<lceil>frameCount\<rceil> - i)")
  show "wf (measure (\<lambda>(d, n, frameCount, c, i, cd). nat \<lceil>frameCount\<rceil> - i))"
    by simp
next
  fix dataInt16 :: "16 word list" and numChannels channel i :: nat
    and frameCount :: rat and channelData :: "number list"
  assume lt: "of_nat i < frameCount"
  then have "int i < \<lceil>frameCount\<rceil>"
    by (simp add: less_ceiling_iff)
  then show "((dataInt16, numChannels, frameCount, channel, Suc i,
                channelData[i := sample_div dataInt16 (i * numChannels + channel)]),
              (dataInt16, numChannels, frameCount, channel, i, channelData))
             \<in> measure (\<lambda>(d, n, frameCount, c, i, cd). nat \<lceil>frameCount\<rceil> - i)"
    by simp
qed

text \<open>
  The outer loop over the channels. \<^verbatim>\<open>buffer.getChannelData(channel)\<close> throws an
  \<open>IndexSizeError\<close> DOMException for a channel the buffer does not have; the array it returns
  is the buffer's own, so filling it updates the buffer.
\<close>

function fill_channels ::
  "16 word list \<Rightarrow> nat \<Rightarrow> rat \<Rightarrow> nat \<Rightarrow> AudioBuffer \<Rightarrow> js_error + AudioBuffer" where
  "fill_channels dataInt16 numChannels frameCount channel buffer =
     (if channel < numChannels
      then (if channel < length buffer
            then fill_channels dataInt16 numChannels frameCount (Suc channel)
                   (buffer[channel :=
                      fill_frames dataInt16 numChannels frameCount channel 0 (buffer ! channel)])
            else Inl (DOMException ''IndexSizeError'' None))
      else Inr buffer)"
  by pat_completeness auto
termination
  by (relation "measure (\<lambda>(d, numChannels, f, channel, b). numChannels - channel)") auto

text \<open>
  \<^verbatim>\<open>frameCount = dataInt16.length / numChannels\<close> is a division of doubles: by zero it
  is \<open>Infinity\<close>, or \<open>NaN\<close> for \<open>0 / 0\<close>, and then the loop over the channels has no
  iteration.
\<close>

definition decodeAudioData ::
  "Uint8Array \<Rightarrow> AudioContext \<Rightarrow> nat \<Rightarrow> nat \<Rightarrow> js_error + AudioBuffer" where
  "decodeAudioData data ctx sampleRate numChannels =
     (case Int16Array data of
        Inl e \<Rightarrow> Inl e
      | Inr dataInt16 \<Rightarrow>
          (if numChannels = 0
           then createBuffer ctx numChannels
                  (if length dataInt16 = 0 then NaN else Infinity) sampleRate
           else
             (let frameCount = of_nat (length dataInt16) / of_nat numChannels
              in case createBuffer ctx numChannels (Num frameCount) sampleRate of
                   Inl e \<Rightarrow> Inl e
                 | Inr buffer \<Rightarrow> fill_channels dataInt16 numChannels frameCount 0 buffer)))"

section \<open>GeminiService.ts: the three remote calls\<close>

subsection \<open>Requests and responses of \<^verbatim>\<open>ai.models.generateContent\<close>\<close>

datatype RequestPart =
    InlineDataPart "string option" string  \<comment> \<open>\<^verbatim>\<open>{ inlineData: { data, mimeType } }\<close>\<close>
  | TextPart string                        \<comment> \<open>\<^verbatim>\<open>{ text }\<close>\<close>

datatype RequestConfig =
    NoConfig
  | GoogleSearchTool       \<comment> \<open>\<^verbatim>\<open>tools: [{ googleSearch: {} }]\<close>\<close>
  | AudioVoice string      \<comment> \<open>\<^verbatim>\<open>responseModalities: [AUDIO]\<close> with a prebuilt voice\<close>

record Request =
  model :: string
  contents :: "RequestPart list"
  config :: RequestConfig

text \<open>
  The fields of a response that the program reads. Every one of them may be missing
  (\<^verbatim>\<open>undefined\<close>), which is \<open>None\<close>.
\<close>

record Web =
  title :: "string option"
  uri :: "string option"

record GroundingChunk =
  web :: "Web option"

record GroundingMetadata =
  groundingChunks :: "GroundingChunk list option"

record Blob =
  data :: "string option"

record Part =
  inlineData :: "Blob option"

record Content =
  parts :: "Part list option"

record Candidate =
  content :: "Content option"
  groundingMetadata :: "GroundingMetadata option"

record GenerateContentResponse =
  response_text :: "string option"  \<comment> \<open>\<^verbatim>\<open>response.text\<close>\<close>
  candidates :: "Candidate list option"

text \<open>
  The remote model is an external collaborator: a call either rejects with an error or
  resolves with a response.
\<close>

type_synonym GoogleGenAI = "Request \<Rightarrow> js_error + GenerateContentResponse"

subsection \<open>String helpers of the language\<close>

text \<open>\<^verbatim>\<open>xs?.[i]\<close> on an array that may be missing.\<close>

definition opt_index :: "'a list \<Rightarrow> nat \<Rightarrow> 'a option" where
  "opt_index xs i = (if i < length xs then Some (xs ! i) else None)"

text \<open>\<^verbatim>\<open>s.split(sep)\<close> for a one-character separator.\<close>

fun split :: "string \<Rightarrow> char \<Rightarrow> string list" where
  "split [] sep = [[]]"
| "split (c # cs) sep =
     (if c = sep then [] # split cs sep
      else (case split cs sep of [] \<Rightarrow> [[c]] | x # xs \<Rightarrow> (c # x) # xs))"

text \<open>
  \<^verbatim>\<open>s.trim()\<close> strips white space and line terminators from both ends. A character is a
  code unit below 256 here, and the ones among them that the language counts as white space
  or line terminator are tab, line feed, vertical tab, form feed, carriage return, space and
  the no-break space U+00A0.
\<close>

definition isWhiteSpace :: "char \<Rightarrow> bool" where
  "isWhiteSpace c = (of_char c \<in> {9, 10, 11, 12, 13, 32, 160 :: nat})"

definition trim :: "string \<Rightarrow> string" where
  "trim s = rev (dropWhile isWhiteSpace (rev (dropWhile isWhiteSpace s)))"

text \<open>\<^verbatim>\<open>s.includes(pat)\<close>: \<open>pat\<close> occurs in \<open>s\<close> as a contiguous substring.\<close>

fun startsWith :: "string \<Rightarrow> string \<Rightarrow> bool" where
  "startsWith s [] = True"
| "startsWith [] (p # ps) = False"
| "startsWith (c # cs) (p # ps) = (c = p \<and> startsWith cs ps)"

fun includes_str :: "string \<Rightarrow> string \<Rightarrow> bool" where
  "includes_str [] pat = (pat = [])"
| "includes_str (c # cs) pat = (startsWith (c # cs) pat \<or> includes_str cs pat)"

text \<open>\<^verbatim>\<open>x || d\<close> on a string that may be missing: the empty string is falsy too.\<close>

definition or_else :: "string option \<Rightarrow> string \<Rightarrow> string" where
  "or_else x d = (case x of None \<Rightarrow> d | Some v \<Rightarrow> if v = [] then d else v)"

subsection \<open>identifyLandmark\<close>

definition identifyLandmark_request :: "string \<Rightarrow> Request" where
  "identifyLandmark_request base64Image =
     \<lparr> model = ''gemini-3-pro-preview'',
       contents =
         [ InlineDataPart (opt_index (split base64Image CHR '','') 1) ''image/jpeg'',
           TextPart (''Identify this landmark. Return ONLY the name of the landmark. ''
                     @ ''If not a landmark, say '' @ [CHR 0x27] @ ''Unknown'' @ [CHR 0x27] @ ''.'') ],
       config = NoConfig \<rparr>"

definition identifyLandmark :: "GoogleGenAI \<Rightarrow> string \<Rightarrow> js_error + string" where
  "identifyLandmark ai base64Image =
     (case ai (identifyLandmark_request base64Image) of
        Inl e \<Rightarrow> Inl e
      | Inr response \<Rightarrow> Inr (or_else (map_option trim (response_text response)) ''Unknown''))"

subsection \<open>getLandmarkHistory\<close>

record SourceRef =
  title :: "string option"
  uri :: "string option"

definition getLandmarkHistory_request :: "string \<Rightarrow> Request" where
  "getLandmarkHistory_request landmark =
     \<lparr> model = ''gemini-3-flash-preview'',
       contents =
         [ TextPart (''Provide a fascinating and concise 3-paragraph history of '' @ landmark
                     @ '' for a tourism app. Make it engaging for a narrator to read.'') ],
       config = GoogleSearchTool \<rparr>"

text \<open>\<^verbatim>\<open>response.candidates?.[0]?.groundingMetadata?.groundingChunks\<close>\<close>

definition response_groundingChunks :: "GenerateContentResponse \<Rightarrow> GroundingChunk list option" where
  "response_groundingChunks response =
     (case candidates response of
        None \<Rightarrow> None
      | Some cs \<Rightarrow>
          (case opt_index cs 0 of
             None \<Rightarrow> None
           | Some c \<Rightarrow>
               (case groundingMetadata c of
                  None \<Rightarrow> None
                | Some m \<Rightarrow> groundingChunks m)))"

text \<open>
  \<^verbatim>\<open>chunks?.filter(chunk => chunk.web)?.map(chunk => ({ title: chunk.web.title, uri: chunk.web.uri })) || []\<close>.
  A web reference that is present is an object, hence truthy; the mapping function runs on
  the chunks the filter kept only.
\<close>

definition source_of_chunk :: "GroundingChunk \<Rightarrow> SourceRef list" where
  "source_of_chunk chunk =
     (case web chunk of
        None \<Rightarrow> []
      | Some w \<Rightarrow> [\<lparr> title = Web.title w, uri = Web.uri w \<rparr>])"

definition response_sources :: "GenerateContentResponse \<Rightarrow> SourceRef list" where
  "response_sources response =
     (case response_groundingChunks response of
        None \<Rightarrow> []
      | Some chunks \<Rightarrow>
          concat (map source_of_chunk (filter (\<lambda>chunk. web chunk \<noteq> None) chunks)))"

definition getLandmarkHistory :: "GoogleGenAI \<Rightarrow> string \<Rightarrow> js_error + (string \<times> SourceRef list)" where
  "getLandmarkHistory ai landmark =
     (case ai (getLandmarkHistory_request landmark) of
        Inl e \<Rightarrow> Inl e
      | Inr response \<Rightarrow>
          (let sources = response_sources response
           in Inr (or_else (response_text response) ''History unavailable.'', sources)))"

subsection \<open>generateNarration\<close>

definition generateNarration_request :: "string \<Rightarrow> Request" where
  "generateNarration_request text =
     \<lparr> model = ''gemini-2.5-flash-preview-tts'',
       contents =
         [ TextPart (''Read this history of a landmark clearly and with wonder: '' @ text) ],
       config = AudioVoice ''Kore'' \<rparr>"

text \<open>\<^verbatim>\<open>response.candidates?.[0]?.content?.parts?.[0]?.inlineData?.data\<close>\<close>

definition response_audioData :: "GenerateContentResponse \<Rightarrow> string option" where
  "response_audioData response =
     (case candidates response of
        None \<Rightarrow> None
      | Some cs \<Rightarrow>
          (case opt_index cs 0 of
             None \<Rightarrow> None
           | Some c \<Rightarrow>
               (case content c of
                  None \<Rightarrow> None
                | Some ct \<Rightarrow>
                    (case parts ct of
                       None \<Rightarrow> None
                     | Some ps \<Rightarrow>
                         (case opt_index ps 0 of
                            None \<Rightarrow> None
                          | Some p \<Rightarrow>
                              (case inlineData p of
                                 None \<Rightarrow> None
                               | Some b \<Rightarrow> data b))))))"

text \<open>\<^verbatim>\<open>if (!audioData) throw new Error("Audio generation failed")\<close>: a missing payload and
  an empty one are both falsy.\<close>

definition generateNarration :: "GoogleGenAI \<Rightarrow> string \<Rightarrow> js_error + string" where
  "generateNarration ai text =
     (case ai (generateNarration_request text) of
        Inl e \<Rightarrow> Inl e
      | Inr response \<Rightarrow>
          (case response_audioData response of
             None \<Rightarrow> Inl (Error (Some ''Audio generation failed''))
           | Some audioData \<Rightarrow>
               if audioData = [] then Inl (Error (Some ''Audio generation failed''))
               else Inr audioData))"

section \<open>types.ts\<close>

record LandmarkAnalysis =
  name :: string
  history :: string
  sources :: "SourceRef list"
  audioData :: "string option"

datatype AppState = IDLE | LOADING_IMAGE | SEARCHING_HISTORY | GENERATING_AUDIO | PLAYING | ERROR

section \<open>App.tsx: the component\<close>

subsection \<open>State, effects and collaborators\<close>

text \<open>
  What the component does that an observer can see, in the order it does it: the state
  setters, the calls of the three service methods, the credential dialog, and
  \<^verbatim>\<open>stop()\<close> and \<^verbatim>\<open>start()\<close> on audio source nodes (a node is named by a number).
\<close>

datatype ServiceCall =
    IdentifyLandmark string
  | GetLandmarkHistory string
  | GenerateNarration string

datatype event =
    SetState AppState
  | SetError "string option"
  | SetAnalysis "LandmarkAnalysis option"
  | SetImagePreview "string option"
  | SetIsApiKeyChecked bool
  | Call ServiceCall
  | OpenSelectKey
  | Stop nat
  | Start nat AudioBuffer

text \<open>
  The component's \<^verbatim>\<open>useState\<close> cells and \<^verbatim>\<open>useRef\<close> cells, the audio nodes of the
  platform (\<open>nodes\<close> counts the ones created, \<open>playing\<close> lists the ones that were started
  and not stopped), and the \<open>trace\<close> of events so far, oldest first.
\<close>

record App =
  state :: AppState
  error :: "string option"
  analysis :: "LandmarkAnalysis option"
  imagePreview :: "string option"
  isApiKeyChecked :: bool
  audioContextRef :: "AudioContext option"
  audioSourceRef :: "nat option"
  nodes :: nat
  playing :: "nat list"
  trace :: "event list"

text \<open>
  The collaborators outside the repository: the remote model, the credential provider's
  answer to \<^verbatim>\<open>window.aistudio.hasSelectedApiKey()\<close>, the platform's \<^verbatim>\<open>atob\<close>, and the
  context that \<^verbatim>\<open>new AudioContext({ sampleRate: 24000 })\<close> yields.
\<close>

record Env =
  ai :: GoogleGenAI
  hasSelectedApiKey :: bool
  atob :: "string \<Rightarrow> string option"
  newAudioContext :: AudioContext

definition emit :: "event \<Rightarrow> App \<Rightarrow> App" where
  "emit e w = w\<lparr>trace := trace w @ [e]\<rparr>"

definition setState :: "AppState \<Rightarrow> App \<Rightarrow> App" where
  "setState s w = emit (SetState s) (w\<lparr>state := s\<rparr>)"

definition setError :: "string option \<Rightarrow> App \<Rightarrow> App" where
  "setError e w = emit (SetError e) (w\<lparr>error := e\<rparr>)"

definition setAnalysis :: "LandmarkAnalysis option \<Rightarrow> App \<Rightarrow> App" where
  "setAnalysis a w = emit (SetAnalysis a) (w\<lparr>analysis := a\<rparr>)"

definition setImagePreview :: "string option \<Rightarrow> App \<Rightarrow> App" where
  "setImagePreview p w = emit (SetImagePreview p) (w\<lparr>imagePreview := p\<rparr>)"

definition setIsApiKeyChecked :: "bool \<Rightarrow> App \<Rightarrow> App" where
  "setIsApiKeyChecked b w = emit (SetIsApiKeyChecked b) (w\<lparr>isApiKeyChecked := b\<rparr>)"

text \<open>\<^verbatim>\<open>node.stop()\<close> and \<^verbatim>\<open>node.start()\<close>.\<close>

definition stop :: "nat \<Rightarrow> App \<Rightarrow> App" where
  "stop node w = emit (Stop node) (w\<lparr>playing := removeAll node (playing w)\<rparr>)"

definition start :: "nat \<Rightarrow> AudioBuffer \<Rightarrow> App \<Rightarrow> App" where
  "start node buffer w = emit (Start node buffer) (w\<lparr>playing := playing w @ [node]\<rparr>)"

subsection \<open>handleApiKeySelection\<close>

text \<open>
  \<^verbatim>\<open>await window.aistudio.openSelectKey()\<close> is the credential provider's dialog; it is
  taken to return.
\<close>

definition handleApiKeySelection :: "App \<Rightarrow> App" where
  "handleApiKeySelection w = setIsApiKeyChecked True (emit OpenSelectKey w)"

subsection \<open>playAudio\<close>

text \<open>
  The result is the state together with the error the promise rejects with, if any:
  \<^verbatim>\<open>decodeBase64\<close> and \<^verbatim>\<open>decodeAudioData\<close> may throw, after the previous node was stopped
  and before a new one is created.
\<close>

definition playAudio :: "Env \<Rightarrow> string \<Rightarrow> App \<Rightarrow> js_error option \<times> App" where
  "playAudio env base64Audio w =
     (let w1 = (case audioSourceRef w of None \<Rightarrow> w | Some node \<Rightarrow> stop node w);
          ctx = (case audioContextRef w1 of None \<Rightarrow> newAudioContext env | Some c \<Rightarrow> c);
          w2 = w1\<lparr>audioContextRef := Some ctx\<rparr>
      in case decodeBase64 (atob env) base64Audio of
           Inl e \<Rightarrow> (Some e, w2)
         | Inr decoded \<Rightarrow>
             (case decodeAudioData decoded ctx 24000 1 of
                Inl e \<Rightarrow> (Some e, w2)
              | Inr audioBuffer \<Rightarrow>
                  (let source = nodes w2;
                       w3 = start source audioBuffer (w2\<lparr>nodes := Suc source\<rparr>)
                   in (None, w3\<lparr>audioSourceRef := Some source\<rparr>))))"

subsection \<open>stopExperience\<close>

definition stopExperience :: "App \<Rightarrow> App" where
  "stopExperience w =
     (let w1 = (case audioSourceRef w of None \<Rightarrow> w | Some node \<Rightarrow> stop node w)
      in setImagePreview None (setAnalysis None (setState IDLE w1)))"

subsection \<open>processImage\<close>

text \<open>
  The body of the \<^verbatim>\<open>try\<close> block: \<open>Inl\<close> is a throw, with the state as it was then.
  The locals \<open>name\<close>, \<open>history\<close>, \<open>sources\<close> and \<open>audioData\<close> are primed, the plain
  names being the fields of the analysis.
  \<^verbatim>\<open>playAudio(audioData)\<close> is not awaited, so an error of it is not thrown here.
\<close>

definition try_block :: "Env \<Rightarrow> string \<Rightarrow> App \<Rightarrow> (js_error + unit) \<times> App" where
  "try_block env base64 w =
     (let w1 = emit (Call (IdentifyLandmark base64)) w
      in case identifyLandmark (ai env) base64 of
           Inl err \<Rightarrow> (Inl err, w1)
         | Inr name' \<Rightarrow>
             if name' = ''Unknown''
             then (Inl (Error (Some ''Could not identify a landmark in this photo.'')), w1)
             else
               (let w2 = setState SEARCHING_HISTORY w1;
                    w3 = emit (Call (GetLandmarkHistory name')) w2
                in case getLandmarkHistory (ai env) name' of
                     Inl err \<Rightarrow> (Inl err, w3)
                   | Inr (history', sources') \<Rightarrow>
                       (let w4 = setState GENERATING_AUDIO w3;
                            w5 = emit (Call (GenerateNarration history')) w4
                        in case generateNarration (ai env) history' of
                             Inl err \<Rightarrow> (Inl err, w5)
                           | Inr audioData' \<Rightarrow>
                               (let w6 = setAnalysis
                                           (Some \<lparr> name = name', history = history',
                                                   sources = sources',
                                                   audioData = Some audioData' \<rparr>) w5;
                                    w7 = setState PLAYING w6
                                in (Inr (), snd (playAudio env audioData' w7))))))"

text \<open>The \<^verbatim>\<open>catch (err)\<close> block.\<close>

definition catch_block :: "js_error \<Rightarrow> App \<Rightarrow> App" where
  "catch_block err w =
     (let w1 =
        (if (case message err of None \<Rightarrow> False
             | Some m \<Rightarrow> includes_str m ''Requested entity was not found'')
         then handleApiKeySelection
                (setError (Some ''API key session expired. Please select your key again.'') w)
         else setError (Some (or_else (message err) ''An unexpected error occurred.'')) w)
      in setState ERROR w1)"

text \<open>\<^verbatim>\<open>reader.onload\<close>; \<open>base64\<close> is the data URL that the reader produced.\<close>

definition onload :: "Env \<Rightarrow> string \<Rightarrow> App \<Rightarrow> App" where
  "onload env base64 w =
     (let w1 = setImagePreview (Some base64) w
      in case try_block env base64 w1 of
           (Inl err, w2) \<Rightarrow> catch_block err w2
         | (Inr _, w2) \<Rightarrow> w2)"

text \<open>
  \<^verbatim>\<open>processImage(file)\<close>; the file is given by the data URL that
  \<^verbatim>\<open>reader.readAsDataURL(file)\<close> delivers to \<^verbatim>\<open>onload\<close>.
\<close>

definition processImage :: "Env \<Rightarrow> string \<Rightarrow> App \<Rightarrow> App" where
  "processImage env file w =
     (if \<not> hasSelectedApiKey env \<and> \<not> isApiKeyChecked w
      then handleApiKeySelection w
      else onload env file (setAnalysis None (setError None (setState LOADING_IMAGE w))))"

subsection \<open>The controls of the component\<close>

text \<open>
  What a user can do, control by control. The file input is rendered in state \<open>IDLE\<close> only
  and calls \<^verbatim>\<open>processImage\<close> with the chosen file; the "Finish Tour" button is rendered
  when the state is neither \<open>IDLE\<close> nor \<open>ERROR\<close> and an analysis is present, and calls
  \<^verbatim>\<open>stopExperience\<close>; the "Try Another Photo" button is rendered in state \<open>ERROR\<close> and sets the
  state to \<open>IDLE\<close>; the "Change API Key" button is always there. An action on a control that
  is not rendered does not happen. The collaborators may answer differently each time a file
  is chosen. A run of \<^verbatim>\<open>processImage\<close> is one step: while it is in flight the analysis is
  null and the state is not \<open>IDLE\<close>, so that no control but "Change API Key" is rendered.
\<close>

datatype user_action =
    ChooseFile Env string
  | FinishTour
  | TryAnotherPhoto
  | ChangeApiKey

fun handle :: "user_action \<Rightarrow> App \<Rightarrow> App" where
  "handle (ChooseFile env file) w = (if state w = IDLE then processImage env file w else w)"
| "handle FinishTour w =
     (if state w \<noteq> IDLE \<and> state w \<noteq> ERROR \<and> analysis w \<noteq> None then stopExperience w else w)"
| "handle TryAnotherPhoto w = (if state w = ERROR then setState IDLE w else w)"
| "handle ChangeApiKey w = handleApiKeySelection w"

fun session :: "user_action list \<Rightarrow> App \<Rightarrow> App" where
  "session [] w = w"
| "session (a # as) w = session as (handle a w)"

text \<open>
  The component as it is mounted: the initial values of its \<^verbatim>\<open>useState\<close> and \<^verbatim>\<open>useRef\<close>
  cells, no audio node, and nothing done yet.
\<close>

definition initial_app :: App where
  "initial_app =
     \<lparr> state = IDLE, error = None, analysis = None, imagePreview = None,
       isApiKeyChecked = False, audioContextRef = None, audioSourceRef = None,
       nodes = 0, playing = [], trace = [] \<rparr>"

section \<open>Observations on a trace\<close>

text \<open>The nodes that are playing after a sequence of events, given the ones playing before.\<close>

fun active_from :: "nat list \<Rightarrow> event list \<Rightarrow> nat list" where
  "active_from acc [] = acc"
| "active_from acc (Start n b # es) = active_from (acc @ [n]) es"
| "active_from acc (Stop n # es) = active_from (removeAll n acc) es"
| "active_from acc (e # es) = active_from acc es"

definition active_nodes :: "event list \<Rightarrow> nat list" where
  "active_nodes es = active_from [] es"

text \<open>The events that start or stop a node.\<close>

fun is_audio :: "event \<Rightarrow> bool" where
  "is_audio (Start n b) = True"
| "is_audio (Stop n) = True"
| "is_audio e = False"

text \<open>The values the analysis was set to, the nodes that were stopped, and the nodes that
  were started, each in order.\<close>

fun analysis_updates :: "event list \<Rightarrow> LandmarkAnalysis option list" where
  "analysis_updates [] = []"
| "analysis_updates (SetAnalysis a # es) = a # analysis_updates es"
| "analysis_updates (e # es) = analysis_updates es"

fun stopped_nodes :: "event list \<Rightarrow> nat list" where
  "stopped_nodes [] = []"
| "stopped_nodes (Stop n # es) = n # stopped_nodes es"
| "stopped_nodes (e # es) = stopped_nodes es"

fun service_calls :: "event list \<Rightarrow> ServiceCall list" where
  "service_calls [] = []"
| "service_calls (Call c # es) = c # service_calls es"
| "service_calls (e # es) = service_calls es"

text \<open>The events of a run: what it appended to the trace it started from.\<close>

definition run_events :: "App \<Rightarrow> App \<Rightarrow> event list" where
  "run_events w w' = drop (length (trace w)) (trace w')"

text \<open>The events up to the first reset to \<open>LOADING_IMAGE\<close>.\<close>

fun before_reset :: "event list \<Rightarrow> event list" where
  "before_reset [] = []"
| "before_reset (SetState LOADING_IMAGE # es) = []"
| "before_reset (e # es) = e # before_reset es"

section \<open>Reference definitions\<close>

text \<open>The signed 16-bit integer that two bytes encode, low byte first.\<close>

definition le_int16 :: "8 word \<Rightarrow> 8 word \<Rightarrow> int" where
  "le_int16 lo hi = sint (ucast lo OR push_bit 8 (ucast hi) :: 16 word)"

text \<open>
  The sources as the specification words them: the entries that carry a web reference, in
  their original order, each with the title and the uri of its web reference.
\<close>

fun web_references :: "GroundingChunk list \<Rightarrow> SourceRef list" where
  "web_references [] = []"
| "web_references (chunk # chunks) =
     (case web chunk of
        None \<Rightarrow> web_references chunks
      | Some w \<Rightarrow> \<lparr> title = Web.title w, uri = Web.uri w \<rparr> # web_references chunks)"





text \<open>The state in which the try block of a run starts, once the credential check is passed.\<close>

definition submitted :: "string \<Rightarrow> App \<Rightarrow> App" where
  "submitted file w =
     setImagePreview (Some file) (setAnalysis None (setError None (setState LOADING_IMAGE w)))"

section \<open>Concrete collaborators and states\<close>

text \<open>
  A remote model that answers each of the three requests with a fixed outcome, told apart
  by the model name of the request.
\<close>

definition scripted_ai ::
  "(js_error + GenerateContentResponse) \<Rightarrow> (js_error + GenerateContentResponse) \<Rightarrow>
   (js_error + GenerateContentResponse) \<Rightarrow> GoogleGenAI" where
  "scripted_ai identified researched narrated request =
     (if model request = ''gemini-3-pro-preview'' then identified
      else if model request = ''gemini-3-flash-preview'' then researched
      else narrated)"

definition text_response :: "string option \<Rightarrow> GenerateContentResponse" where
  "text_response t = \<lparr> response_text = t, candidates = None \<rparr>"

text \<open>
  A research response with three grounding chunks: one with a titled web reference, one with
  no web reference, one whose web reference has no title.
\<close>

definition example_chunks :: "GroundingChunk list" where
  "example_chunks =
     [ \<lparr> web = Some \<lparr> Web.title = Some ''Wiki'', Web.uri = Some ''https://en.wikipedia.org/wiki/Eiffel_Tower'' \<rparr> \<rparr>,
       \<lparr> web = None \<rparr>,
       \<lparr> web = Some \<lparr> Web.title = None, Web.uri = Some ''https://www.toureiffel.paris'' \<rparr> \<rparr> ]"

definition research_response :: "string option \<Rightarrow> GenerateContentResponse" where
  "research_response t =
     \<lparr> response_text = t,
       candidates = Some [ \<lparr> content = None,
                            groundingMetadata = Some \<lparr> groundingChunks = Some example_chunks \<rparr> \<rparr> ] \<rparr>"

definition audio_response :: "string option \<Rightarrow> GenerateContentResponse" where
  "audio_response d =
     \<lparr> response_text = None,
       candidates = Some [ \<lparr> content = Some \<lparr> parts = Some [ \<lparr> inlineData = Some \<lparr> data = d \<rparr> \<rparr> ] \<rparr>,
                            groundingMetadata = None \<rparr> ] \<rparr>"

text \<open>
  The audio payload of the examples is \<open>''AAABAP9/AIA=''\<close>, the base64 text of the four
  samples \<open>0, 1, 32767, -32768\<close> as little-endian bytes.
\<close>

text \<open>
  An audio context whose \<^verbatim>\<open>createBuffer\<close> allocates silent channels and rejects a channel
  count, length or sample rate that is not positive.
\<close>

definition example_ctx :: AudioContext where
  "example_ctx =
     \<lparr> createBuffer = (\<lambda>numberOfChannels len sampleRate.
         case len of
           Num f \<Rightarrow>
             if numberOfChannels = 0 \<or> f \<le> 0 \<or> sampleRate = 0
             then Inl (DOMException ''NotSupportedError'' None)
             else Inr (replicate numberOfChannels (replicate (nat \<lfloor>f\<rfloor>) (Num 0)))
         | Infinity \<Rightarrow> Inl (DOMException ''NotSupportedError'' None)
         | NaN \<Rightarrow> Inl (DOMException ''NotSupportedError'' None)) \<rparr>"

definition example_env :: "GoogleGenAI \<Rightarrow> Env" where
  "example_env ai0 =
     \<lparr> ai = ai0, hasSelectedApiKey = True, atob = forgiving_atob, newAudioContext = example_ctx \<rparr>"

text \<open>
  Five remote models: one for which all three stages succeed; one that recognises no
  landmark; one that returns no narrative text; one that returns no audio; and one whose
  first call is rejected because the credential has expired.
\<close>

definition example_ai :: GoogleGenAI where
  "example_ai = scripted_ai (Inr (text_response (Some '' Eiffel Tower '')))
                            (Inr (research_response (Some ''A tower.'')))
                            (Inr (audio_response (Some ''AAABAP9/AIA='')))"

definition unknown_ai :: GoogleGenAI where
  "unknown_ai = scripted_ai (Inr (text_response (Some '' Unknown '')))
                            (Inr (research_response (Some ''A tower.'')))
                            (Inr (audio_response (Some ''AAABAP9/AIA='')))"

definition textless_ai :: GoogleGenAI where
  "textless_ai = scripted_ai (Inr (text_response (Some '' Eiffel Tower '')))
                             (Inr (research_response None))
                             (Inr (audio_response (Some ''AAABAP9/AIA='')))"

definition silent_ai :: GoogleGenAI where
  "silent_ai = scripted_ai (Inr (text_response (Some '' Eiffel Tower '')))
                           (Inr (research_response (Some ''A tower.'')))
                           (Inr (audio_response None))"

definition expired_ai :: GoogleGenAI where
  "expired_ai = scripted_ai (Inl (Error (Some ''404 NOT_FOUND: Requested entity was not found.'')))
                            (Inr (research_response (Some ''A tower.'')))
                            (Inr (audio_response (Some ''AAABAP9/AIA='')))"

text \<open>The two sources that the research responses above give rise to.\<close>

definition example_sources :: "SourceRef list" where
  "example_sources =
     [ \<lparr> title = Some ''Wiki'', uri = Some ''https://en.wikipedia.org/wiki/Eiffel_Tower'' \<rparr>,
       \<lparr> title = None, uri = Some ''https://www.toureiffel.paris'' \<rparr> ]"

text \<open>A fresh component, and one that is playing the narration of an earlier run on node 0.\<close>

definition idle_app :: App where
  "idle_app =
     \<lparr> state = IDLE, error = None, analysis = None, imagePreview = None,
       isApiKeyChecked = False, audioContextRef = None, audioSourceRef = None,
       nodes = 0, playing = [], trace = [] \<rparr>"

definition playing_app :: App where
  "playing_app =
     \<lparr> state = PLAYING, error = None,
       analysis = Some \<lparr> name = ''Big Ben'', history = ''A clock tower.'', sources = [],
                        audioData = Some ''AAABAP9/AIA='' \<rparr>,
       imagePreview = Some ''data:image/jpeg;base64,AAAA'',
       isApiKeyChecked = True, audioContextRef = Some example_ctx, audioSourceRef = Some 0,
       nodes = 1, playing = [0], trace = [] \<rparr>"

definition example_file :: string where
  "example_file = ''data:image/jpeg;base64,/9j/4AAQSkZJRg==''"

section \<open>Properties\<close>

declare fill_frames.simps [simp del] fill_channels.simps [simp del] decodeBase64_loop.simps [simp del]

lemma fill_frames_length:
  "length (fill_frames d C F c i cd) = length cd"
  by (induction d C F c i cd rule: fill_frames.induct) (simp add: fill_frames.simps[of _ _ _ _ _ cd for cd])

lemma fill_frames_nth:
  "j < length cd \<Longrightarrow>
   fill_frames d C F c i cd ! j =
     (if i \<le> j \<and> of_nat j < F then sample_div d (j * C + c) else cd ! j)"
proof (induction d C F c i cd rule: fill_frames.induct)
  case (1 d C F c i cd)
  show ?case
  proof (cases "of_nat i < F")
    case True
    have "fill_frames d C F c i cd ! j =
          fill_frames d C F c (Suc i) (cd[i := sample_div d (i * C + c)]) ! j"
      using True by (simp add: fill_frames.simps [of d C F c i cd])
    also have "\<dots> = (if Suc i \<le> j \<and> of_nat j < F then sample_div d (j * C + c)
                      else cd[i := sample_div d (i * C + c)] ! j)"
      using "1.IH" [OF True] "1.prems" by simp
    also have "\<dots> = (if i \<le> j \<and> of_nat j < F then sample_div d (j * C + c) else cd ! j)"
      using True "1.prems" by (cases "i = j") auto
    finally show ?thesis .
  next
    case False
    have neg: "\<not> (i \<le> j \<and> of_nat j < F)"
    proof
      assume a: "i \<le> j \<and> of_nat j < F"
      then have "(of_nat i :: rat) \<le> of_nat j" by simp
      with a have "of_nat i < F" by linarith
      with False show False by simp
    qed
    have "fill_frames d C F c i cd = cd"
      using False by (simp add: fill_frames.simps [of d C F c i cd])
    with neg show ?thesis by auto
  qed
qed

lemma fill_channels_ok:
  "numChannels \<le> length buffer \<Longrightarrow>
   \<exists>b. fill_channels d numChannels F channel buffer = Inr b \<and> length b = length buffer \<and>
     (\<forall>k < length buffer. b ! k =
        (if channel \<le> k \<and> k < numChannels then fill_frames d numChannels F k 0 (buffer ! k)
         else buffer ! k))"
proof (induction d numChannels F channel buffer rule: fill_channels.induct)
  case (1 d numChannels F channel buffer)
  show ?case
  proof (cases "channel < numChannels")
    case True
    let ?b' = "buffer[channel := fill_frames d numChannels F channel 0 (buffer ! channel)]"
    from True "1.prems" have inr: "channel < length buffer" by simp
    have step: "fill_channels d numChannels F channel buffer =
                fill_channels d numChannels F (Suc channel) ?b'"
      using True inr by (simp add: fill_channels.simps [of d numChannels F channel buffer])
    from "1.IH" [OF True inr] "1.prems"
    obtain b where b: "fill_channels d numChannels F (Suc channel) ?b' = Inr b"
      "length b = length ?b'"
      "\<forall>k < length ?b'. b ! k =
        (if Suc channel \<le> k \<and> k < numChannels then fill_frames d numChannels F k 0 (?b' ! k)
         else ?b' ! k)"
      by auto
    have "\<forall>k < length buffer. b ! k =
        (if channel \<le> k \<and> k < numChannels then fill_frames d numChannels F k 0 (buffer ! k)
         else buffer ! k)"
    proof (intro allI impI)
      fix k assume k: "k < length buffer"
      show "b ! k = (if channel \<le> k \<and> k < numChannels
                     then fill_frames d numChannels F k 0 (buffer ! k) else buffer ! k)"
        using b(3) k True inr by (cases "k = channel") auto
    qed
    with b(1,2) step show ?thesis by simp
  next
    case False
    then have "fill_channels d numChannels F channel buffer = Inr buffer"
      by (simp add: fill_channels.simps [of d numChannels F channel buffer])
    moreover from False have "\<And>k. \<not> (channel \<le> k \<and> k < numChannels)" by auto
    ultimately show ?thesis by auto
  qed
qed

lemma int16_view_length: "length (int16_view bs) = length bs div 2"
  by (induction bs rule: int16_view.induct) simp_all

lemma int16_view_nth:
  "k < length bs div 2 \<Longrightarrow>
   int16_view bs ! k = (ucast (bs ! (2 * k)) OR push_bit 8 (ucast (bs ! (2 * k + 1))))"
proof (induction bs arbitrary: k rule: int16_view.induct)
  case (1 lo hi rest)
  then show ?case by (cases k) simp_all
qed simp_all

lemma sint16_bounds: "- 32768 \<le> sint (w :: 16 word) \<and> sint w < 32768"
  using sint_ge [of w] sint_lt [of w] by simp



text \<open>
  Claim C1. Let the bytes encode \<open>N\<close> samples (\<open>2 * N\<close> bytes) interleaved across \<open>C\<close>
  channels, \<open>C\<close> positive and dividing \<open>N\<close>, and let the context's \<^verbatim>\<open>createBuffer\<close> deliver
  a buffer of \<open>C\<close> channels of \<open>N div C\<close> frames. Then \<^verbatim>\<open>decodeAudioData\<close> returns a buffer
  of \<open>C\<close> channels of \<open>N div C\<close> frames each, and frame \<open>i\<close> of channel \<open>c\<close> is the 16-bit
  little-endian sample at index \<open>i * C + c\<close> divided by \<open>32768\<close>, a value in \<open>[-1, 1)\<close>;
  nothing else is done to it.
\<close>

theorem decodeAudioData_pcm16:
  assumes len: "length pcm = 2 * N"
    and C: "0 < C" and dvd: "C dvd N"
    and cb: "createBuffer ctx C (Num (of_nat N / of_nat C)) sampleRate = Inr buf0"
    and b0: "length buf0 = C" "\<forall>c<C. length (buf0 ! c) = N div C"
  shows "\<exists>buf. decodeAudioData pcm ctx sampleRate C = Inr buf \<and> length buf = C \<and>
           (\<forall>c<C. length (buf ! c) = N div C \<and>
              (\<forall>i < N div C.
                 buf ! c ! i =
                   Num (of_int (le_int16 (pcm ! (2 * (i * C + c))) (pcm ! (2 * (i * C + c) + 1))) / 32768)
                 \<and> - 1 \<le> of_int (le_int16 (pcm ! (2 * (i * C + c))) (pcm ! (2 * (i * C + c) + 1))) / (32768 :: rat)
                 \<and> of_int (le_int16 (pcm ! (2 * (i * C + c))) (pcm ! (2 * (i * C + c) + 1))) / (32768 :: rat) < 1))"
proof -
  let ?d = "int16_view pcm"
  let ?F = "of_nat N / of_nat C :: rat"
  have dlen: "length ?d = N" using len by (simp add: int16_view_length)
  have view: "Int16Array pcm = Inr ?d" using len by (simp add: Int16Array_def)
  have F: "?F = of_nat (N div C)"
  proof -
    from dvd obtain k where k: "N = C * k" ..
    with C show ?thesis by simp
  qed
  from fill_channels_ok [of C buf0 ?d ?F 0] b0
  obtain buf where buf: "fill_channels ?d C ?F 0 buf0 = Inr buf" "length buf = C"
    "\<forall>k<C. buf ! k = fill_frames ?d C ?F k 0 (buf0 ! k)"
    by auto
  have res: "decodeAudioData pcm ctx sampleRate C = Inr buf"
    using view C cb buf(1) dlen by (simp add: decodeAudioData_def)
  have "length (buf ! c) = N div C \<and>
              (\<forall>i < N div C.
                 buf ! c ! i =
                   Num (of_int (le_int16 (pcm ! (2 * (i * C + c))) (pcm ! (2 * (i * C + c) + 1))) / 32768)
                 \<and> - 1 \<le> of_int (le_int16 (pcm ! (2 * (i * C + c))) (pcm ! (2 * (i * C + c) + 1))) / (32768 :: rat)
                 \<and> of_int (le_int16 (pcm ! (2 * (i * C + c))) (pcm ! (2 * (i * C + c) + 1))) / (32768 :: rat) < 1)"
    if c: "c < C" for c
  proof (intro conjI allI impI)
    show l: "length (buf ! c) = N div C"
      using buf(3) c b0(2) by (simp add: fill_frames_length)
    fix i assume i: "i < N div C"
    have idx: "i * C + c < N"
    proof -
      have "i * C + c < Suc i * C" using c by simp
      also have "\<dots> \<le> (N div C) * C" using i by (simp add: Suc_leI del: mult_Suc)
      also have "\<dots> = N" using dvd by simp
      finally show ?thesis .
    qed
    let ?s = "le_int16 (pcm ! (2 * (i * C + c))) (pcm ! (2 * (i * C + c) + 1))"
    have "buf ! c ! i = fill_frames ?d C ?F c 0 (buf0 ! c) ! i"
      using buf(3) c by simp
    also have "\<dots> = sample_div ?d (i * C + c)"
      using fill_frames_nth [of i "buf0 ! c" ?d C ?F c 0] i b0(2) c F by simp
    also have "\<dots> = Num (of_int (sint (?d ! (i * C + c))) / 32768)"
      using idx dlen by (simp add: sample_div_def)
    also have "?d ! (i * C + c) = ucast (pcm ! (2 * (i * C + c))) OR push_bit 8 (ucast (pcm ! (2 * (i * C + c) + 1)))"
      using int16_view_nth [of "i * C + c" pcm] idx len by simp
    finally show "buf ! c ! i = Num (of_int ?s / 32768)"
      by (simp add: le_int16_def)
    have "- 32768 \<le> ?s \<and> ?s < 32768"
      unfolding le_int16_def by (rule sint16_bounds)
    then have "(- 32768 :: rat) \<le> of_int ?s \<and> (of_int ?s :: rat) < 32768"
      by (metis of_int_le_iff of_int_less_iff of_int_numeral of_int_minus)
    then show "- 1 \<le> of_int ?s / (32768 :: rat)" "of_int ?s / (32768 :: rat) < 1"
      by (simp_all add: field_simps)
  qed
  with res buf(2) show ?thesis by blast
qed

lemmas app_defs = emit_def setState_def setError_def setAnalysis_def setImagePreview_def
  setIsApiKeyChecked_def handleApiKeySelection_def stop_def start_def

lemma analysis_updates_append:
  "analysis_updates (xs @ ys) = analysis_updates xs @ analysis_updates ys"
  by (induction xs rule: analysis_updates.induct) simp_all

lemma stopped_nodes_append:
  "stopped_nodes (xs @ ys) = stopped_nodes xs @ stopped_nodes ys"
  by (induction xs rule: stopped_nodes.induct) simp_all

lemma service_calls_append:
  "service_calls (xs @ ys) = service_calls xs @ service_calls ys"
  by (induction xs rule: service_calls.induct) simp_all

lemma run_events_append: "trace w' = trace w @ evs \<Longrightarrow> run_events w w' = evs"
  by (simp add: run_events_def)

lemma not_expired_unknown:
  "\<not> includes_str ''Could not identify a landmark in this photo.'' ''Requested entity was not found''"
  by simp

lemma not_expired_audio:
  "\<not> includes_str ''Audio generation failed'' ''Requested entity was not found''"
  by simp

lemma processImage_keyed:
  "hasSelectedApiKey env \<or> isApiKeyChecked w \<Longrightarrow>
   processImage env file w =
     (case try_block env file (submitted file w) of
        (Inl err, w2) \<Rightarrow> catch_block err w2
      | (Inr u, w2) \<Rightarrow> w2)"
  by (auto simp add: processImage_def onload_def submitted_def)

lemma submitted_trace:
  "trace (submitted file w) =
     trace w @ [SetState LOADING_IMAGE, SetError None, SetAnalysis None, SetImagePreview (Some file)]"
  by (simp add: submitted_def app_defs)

lemma submitted_fields:
  "analysis (submitted file w) = None"
  "playing (submitted file w) = playing w"
  "audioSourceRef (submitted file w) = audioSourceRef w"
  "isApiKeyChecked (submitted file w) = isApiKeyChecked w"
  by (simp_all add: submitted_def app_defs)

lemma try_block_unknown:
  "identifyLandmark (ai env) b = Inr ''Unknown'' \<Longrightarrow>
   try_block env b w =
     (Inl (Error (Some ''Could not identify a landmark in this photo.'')),
      emit (Call (IdentifyLandmark b)) w)"
  by (simp add: try_block_def)

lemma try_block_narration_fails:
  "identifyLandmark (ai env) b = Inr nm \<Longrightarrow> nm \<noteq> ''Unknown'' \<Longrightarrow>
   getLandmarkHistory (ai env) nm = Inr (h, srcs) \<Longrightarrow>
   generateNarration (ai env) h = Inl err \<Longrightarrow>
   try_block env b w =
     (Inl err,
      emit (Call (GenerateNarration h)) (setState GENERATING_AUDIO
        (emit (Call (GetLandmarkHistory nm)) (setState SEARCHING_HISTORY
          (emit (Call (IdentifyLandmark b)) w)))))"
  by (simp add: try_block_def)

lemma try_block_success:
  "identifyLandmark (ai env) b = Inr nm \<Longrightarrow> nm \<noteq> ''Unknown'' \<Longrightarrow>
   getLandmarkHistory (ai env) nm = Inr (h, srcs) \<Longrightarrow>
   generateNarration (ai env) h = Inr d \<Longrightarrow>
   try_block env b w =
     (Inr (),
      snd (playAudio env d (setState PLAYING
        (setAnalysis (Some \<lparr> name = nm, history = h, sources = srcs, audioData = Some d \<rparr>)
          (emit (Call (GenerateNarration h)) (setState GENERATING_AUDIO
            (emit (Call (GetLandmarkHistory nm)) (setState SEARCHING_HISTORY
              (emit (Call (IdentifyLandmark b)) w)))))))))"
  by (simp add: try_block_def)

text \<open>A throw of the try block: nothing but stage changes and service calls happened.\<close>

lemma try_block_Inl:
  assumes "try_block env b w = (Inl err, w')"
  shows "\<exists>evs. trace w' = trace w @ evs \<and> analysis_updates evs = [] \<and> stopped_nodes evs = []
           \<and> SetState PLAYING \<notin> set evs \<and> OpenSelectKey \<notin> set evs
           \<and> analysis w' = analysis w \<and> playing w' = playing w
           \<and> isApiKeyChecked w' = isApiKeyChecked w"
  using assms
  by (auto simp add: try_block_def Let_def app_defs split: sum.splits if_splits prod.splits)

lemma try_block_Inr:
  assumes "try_block env b w = (Inr u, w')"
  shows "\<exists>nm h srcs d. identifyLandmark (ai env) b = Inr nm \<and> nm \<noteq> ''Unknown'' \<and>
           getLandmarkHistory (ai env) nm = Inr (h, srcs) \<and>
           generateNarration (ai env) h = Inr d"
  using assms
  by (auto simp add: try_block_def Let_def split: sum.splits if_splits prod.splits)

lemma catch_block_generic:
  assumes "\<not> (\<exists>m. message err = Some m \<and> includes_str m ''Requested entity was not found'')"
  shows "catch_block err w =
           setState ERROR (setError (Some (or_else (message err) ''An unexpected error occurred.'')) w)"
  using assms by (cases "message err") (simp_all add: catch_block_def)

lemma catch_block_expired:
  assumes "message err = Some m" "includes_str m ''Requested entity was not found''"
  shows "catch_block err w =
           setState ERROR (handleApiKeySelection
             (setError (Some ''API key session expired. Please select your key again.'') w))"
  using assms by (simp add: catch_block_def)

lemma catch_block_fields:
  "state (catch_block err w) = ERROR"
  "analysis (catch_block err w) = analysis w"
  "playing (catch_block err w) = playing w"
  "\<exists>evs. trace (catch_block err w) = trace w @ evs \<and> analysis_updates evs = []
      \<and> stopped_nodes evs = [] \<and> SetState PLAYING \<notin> set evs"
  by (simp_all add: catch_block_def app_defs Let_def)

lemma playAudio_fields:
  "state (snd (playAudio env d w)) = state w"
  "analysis (snd (playAudio env d w)) = analysis w"
  "error (snd (playAudio env d w)) = error w"
  by (simp_all add: playAudio_def Let_def app_defs split: option.splits sum.splits)

lemma playAudio_trace:
  "\<exists>post. trace (snd (playAudio env d w)) =
      trace w @ (case audioSourceRef w of None \<Rightarrow> [] | Some node \<Rightarrow> [Stop node]) @ post
    \<and> analysis_updates post = [] \<and> stopped_nodes post = []
    \<and> (post = [] \<or> (\<exists>buffer. post = [Start (nodes w) buffer]))"
  by (simp add: playAudio_def Let_def app_defs split: option.splits sum.splits)


text \<open>
  Claim C2. In a run that the credential check lets through and whose identify step returns
  exactly \<open>''Unknown''\<close>, the state ends as \<open>ERROR\<close> with the message "Could not identify
  a landmark in this photo.", and the only service call made is the identify call: neither
  the research call nor the narrate call occurs.
\<close>

theorem identify_unknown_fails:
  assumes key: "hasSelectedApiKey env \<or> isApiKeyChecked w"
    and unk: "identifyLandmark (ai env) file = Inr ''Unknown''"
  shows "state (processImage env file w) = ERROR \<and>
         error (processImage env file w) = Some ''Could not identify a landmark in this photo.'' \<and>
         run_events w (processImage env file w) =
           [SetState LOADING_IMAGE, SetError None, SetAnalysis None,
            SetImagePreview (Some file), Call (IdentifyLandmark file),
            SetError (Some ''Could not identify a landmark in this photo.''),
            SetState ERROR] \<and>
         service_calls (run_events w (processImage env file w)) = [IdentifyLandmark file]"
proof -
  let ?msg = "''Could not identify a landmark in this photo.''"
  have no: "\<not> (\<exists>m. message (Error (Some ?msg)) = Some m
                  \<and> includes_str m ''Requested entity was not found'')"
    using not_expired_unknown by simp
  have run: "processImage env file w =
        setState ERROR (setError (Some ?msg) (emit (Call (IdentifyLandmark file)) (submitted file w)))"
    using key by (simp add: processImage_keyed try_block_unknown [OF unk]
        catch_block_generic [OF no] or_else_def)
  have tr: "trace (processImage env file w) = trace w @
           [SetState LOADING_IMAGE, SetError None, SetAnalysis None,
            SetImagePreview (Some file), Call (IdentifyLandmark file),
            SetError (Some ?msg), SetState ERROR]"
    by (simp add: run submitted_trace app_defs)
  have ev: "run_events w (processImage env file w) =
           [SetState LOADING_IMAGE, SetError None, SetAnalysis None,
            SetImagePreview (Some file), Call (IdentifyLandmark file),
            SetError (Some ?msg), SetState ERROR]"
    by (rule run_events_append [OF tr])
  have "state (processImage env file w) = ERROR"
    and "error (processImage env file w) = Some ?msg"
    by (simp_all add: run app_defs)
  moreover have "service_calls (run_events w (processImage env file w)) = [IdentifyLandmark file]"
    by (simp add: ev)
  ultimately show ?thesis using ev by simp
qed

lemma generateNarration_no_payload:
  assumes "ai0 (generateNarration_request h) = Inr resp"
    and "response_audioData resp = None \<or> response_audioData resp = Some []"
  shows "generateNarration ai0 h = Inl (Error (Some ''Audio generation failed''))"
  using assms by (auto simp add: generateNarration_def)

text \<open>
  Claim C3. When the narrate response carries no audio payload (missing, or empty),
  \<^verbatim>\<open>generateNarration\<close> throws the error "Audio generation failed", the run ends in \<open>ERROR\<close>
  with that message and no analysis, and the state is never set to \<open>PLAYING\<close>.
\<close>

theorem narration_without_audio_fails:
  assumes key: "hasSelectedApiKey env \<or> isApiKeyChecked w"
    and idn: "identifyLandmark (ai env) file = Inr nm" "nm \<noteq> ''Unknown''"
    and his: "getLandmarkHistory (ai env) nm = Inr (h, srcs)"
    and nar: "ai env (generateNarration_request h) = Inr resp"
    and nop: "response_audioData resp = None \<or> response_audioData resp = Some []"
  shows "generateNarration (ai env) h = Inl (Error (Some ''Audio generation failed'')) \<and>
         state (processImage env file w) = ERROR \<and>
         error (processImage env file w) = Some ''Audio generation failed'' \<and>
         analysis (processImage env file w) = None \<and>
         run_events w (processImage env file w) =
           [SetState LOADING_IMAGE, SetError None, SetAnalysis None,
            SetImagePreview (Some file), Call (IdentifyLandmark file),
            SetState SEARCHING_HISTORY, Call (GetLandmarkHistory nm),
            SetState GENERATING_AUDIO, Call (GenerateNarration h),
            SetError (Some ''Audio generation failed''), SetState ERROR] \<and>
         SetState PLAYING \<notin> set (run_events w (processImage env file w))"
proof -
  let ?msg = "''Audio generation failed''"
  have gn: "generateNarration (ai env) h = Inl (Error (Some ?msg))"
    using generateNarration_no_payload [of "ai env" h resp] nar nop by simp
  have no: "\<not> (\<exists>m. message (Error (Some ?msg)) = Some m
                  \<and> includes_str m ''Requested entity was not found'')"
    using not_expired_audio by simp
  have run: "processImage env file w =
        setState ERROR (setError (Some ?msg)
          (emit (Call (GenerateNarration h)) (setState GENERATING_AUDIO
            (emit (Call (GetLandmarkHistory nm)) (setState SEARCHING_HISTORY
              (emit (Call (IdentifyLandmark file)) (submitted file w)))))))"
    using key by (simp add: processImage_keyed try_block_narration_fails [OF idn his gn]
        catch_block_generic [OF no] or_else_def)
  have tr: "trace (processImage env file w) = trace w @
           [SetState LOADING_IMAGE, SetError None, SetAnalysis None,
            SetImagePreview (Some file), Call (IdentifyLandmark file),
            SetState SEARCHING_HISTORY, Call (GetLandmarkHistory nm),
            SetState GENERATING_AUDIO, Call (GenerateNarration h),
            SetError (Some ?msg), SetState ERROR]"
    by (simp add: run submitted_trace app_defs)
  note ev = run_events_append [OF tr]
  have "state (processImage env file w) = ERROR"
    and "error (processImage env file w) = Some ?msg"
    and "analysis (processImage env file w) = None"
    by (simp_all add: run app_defs submitted_fields)
  moreover have "SetState PLAYING \<notin> set (run_events w (processImage env file w))"
    by (simp add: ev)
  ultimately show ?thesis using gn ev by simp
qed

text \<open>
  Claim C4. When the research response has no narrative text (missing, or empty),
  \<^verbatim>\<open>getLandmarkHistory\<close> returns, without an error, the history "History unavailable.", and
  the run goes on to the narration step, which is called with that text.
\<close>

theorem history_fallback_proceeds:
  assumes key: "hasSelectedApiKey env \<or> isApiKeyChecked w"
    and idn: "identifyLandmark (ai env) file = Inr nm" "nm \<noteq> ''Unknown''"
    and res: "ai env (getLandmarkHistory_request nm) = Inr resp"
    and emp: "response_text resp = None \<or> response_text resp = Some []"
  shows "getLandmarkHistory (ai env) nm = Inr (''History unavailable.'', response_sources resp) \<and>
         take 9 (run_events w (processImage env file w)) =
           [SetState LOADING_IMAGE, SetError None, SetAnalysis None,
            SetImagePreview (Some file), Call (IdentifyLandmark file),
            SetState SEARCHING_HISTORY, Call (GetLandmarkHistory nm),
            SetState GENERATING_AUDIO, Call (GenerateNarration ''History unavailable.'')]"
proof -
  let ?h = "''History unavailable.''"
  have his: "getLandmarkHistory (ai env) nm = Inr (?h, response_sources resp)"
    using res emp by (auto simp add: getLandmarkHistory_def or_else_def)
  let ?w5 = "emit (Call (GenerateNarration ?h)) (setState GENERATING_AUDIO
            (emit (Call (GetLandmarkHistory nm)) (setState SEARCHING_HISTORY
              (emit (Call (IdentifyLandmark file)) (submitted file w)))))"
  have w5: "trace ?w5 = trace w @
           [SetState LOADING_IMAGE, SetError None, SetAnalysis None,
            SetImagePreview (Some file), Call (IdentifyLandmark file),
            SetState SEARCHING_HISTORY, Call (GetLandmarkHistory nm),
            SetState GENERATING_AUDIO, Call (GenerateNarration ?h)]"
    by (simp add: submitted_trace app_defs)
  have "\<exists>rest. trace (processImage env file w) = trace ?w5 @ rest"
  proof (cases "generateNarration (ai env) ?h")
    case (Inl err)
    have "processImage env file w = catch_block err ?w5"
      using key by (simp add: processImage_keyed try_block_narration_fails [OF idn his Inl])
    then show ?thesis using catch_block_fields(4) [of err ?w5] by auto
  next
    case (Inr d)
    let ?w7 = "setState PLAYING (setAnalysis
        (Some \<lparr> name = nm, history = ?h, sources = response_sources resp, audioData = Some d \<rparr>) ?w5)"
    have "processImage env file w = snd (playAudio env d ?w7)"
      using key by (simp add: processImage_keyed try_block_success [OF idn his Inr])
    moreover obtain post where "trace (snd (playAudio env d ?w7)) =
        trace ?w7 @ (case audioSourceRef ?w7 of None \<Rightarrow> [] | Some node \<Rightarrow> [Stop node]) @ post"
      using playAudio_trace [of env d ?w7] by blast
    moreover have "\<exists>mid. trace ?w7 = trace ?w5 @ mid"
      by (simp add: app_defs)
    ultimately show ?thesis by auto
  qed
  then obtain rest where "trace (processImage env file w) = trace w @
           [SetState LOADING_IMAGE, SetError None, SetAnalysis None,
            SetImagePreview (Some file), Call (IdentifyLandmark file),
            SetState SEARCHING_HISTORY, Call (GetLandmarkHistory nm),
            SetState GENERATING_AUDIO, Call (GenerateNarration ?h)] @ rest"
    using w5 by auto
  then have "run_events w (processImage env file w) =
           [SetState LOADING_IMAGE, SetError None, SetAnalysis None,
            SetImagePreview (Some file), Call (IdentifyLandmark file),
            SetState SEARCHING_HISTORY, Call (GetLandmarkHistory nm),
            SetState GENERATING_AUDIO, Call (GenerateNarration ?h)] @ rest"
    by (rule run_events_append)
  then show ?thesis using his by simp
qed


lemma response_sources_eq:
  "concat (map source_of_chunk (filter (\<lambda>chunk. web chunk \<noteq> None) chunks)) = web_references chunks"
  by (induction chunks) (auto simp add: source_of_chunk_def split: option.splits)

lemma web_references_titles:
  "map SourceRef.title (web_references chunks) = map Web.title (List.map_filter web chunks)"
  by (induction chunks) (auto simp add: List.map_filter_simps split: option.splits)

lemma response_sources_Some:
  assumes "response_groundingChunks resp = Some chunks"
  shows "response_sources resp = web_references chunks"
proof -
  have "response_sources resp =
        concat (map source_of_chunk (filter (\<lambda>chunk. web chunk \<noteq> None) chunks))"
    unfolding response_sources_def assms by (simp only: option.case)
  then show ?thesis by (simp only: response_sources_eq)
qed

text \<open>
  Claim C5. For every list of grounding chunks in the research response, the sources returned
  are exactly the entries that carry a web reference, in their original order, with the
  title and uri of the web reference copied; entries without a web reference are dropped and
  no error is raised.
\<close>

theorem sources_are_web_references:
  assumes "ai0 (getLandmarkHistory_request landmark) = Inr resp"
    and "response_groundingChunks resp = Some chunks"
  shows "\<exists>h. getLandmarkHistory ai0 landmark = Inr (h, web_references chunks)"
  using assms by (simp add: getLandmarkHistory_def response_sources_Some)

text \<open>
  Claim C6, as amended. The title of a source reference is the title of its web reference,
  copied as it is: an empty title stays the empty string and a missing title stays missing;
  no error is raised.
\<close>

theorem source_title_verbatim:
  assumes "ai0 (getLandmarkHistory_request landmark) = Inr resp"
    and "response_groundingChunks resp = Some chunks"
  shows "\<exists>h srcs. getLandmarkHistory ai0 landmark = Inr (h, srcs) \<and>
           map SourceRef.title srcs = map Web.title (List.map_filter web chunks)"
  using assms
  by (simp add: getLandmarkHistory_def response_sources_Some web_references_titles)

text \<open>
  Claim C8. When the try block throws an error whose message contains "Requested entity was
  not found", the handler sets the message "API key session expired. Please select your key
  again.", opens the credential dialog and sets the state to \<open>ERROR\<close>. For any other error
  it sets the error's own message, or "An unexpected error occurred." when the error has
  none (or an empty one), sets the state to \<open>ERROR\<close>, and the credential dialog is not
  opened in the run.
\<close>

theorem failure_classification:
  assumes tb: "try_block env base64 (setImagePreview (Some base64) w) = (Inl err, w')"
  shows "((\<exists>m. message err = Some m \<and> includes_str m ''Requested entity was not found'') \<longrightarrow>
            state (onload env base64 w) = ERROR \<and>
            error (onload env base64 w) =
              Some ''API key session expired. Please select your key again.'' \<and>
            isApiKeyChecked (onload env base64 w) \<and>
            trace (onload env base64 w) =
              trace w' @ [SetError (Some ''API key session expired. Please select your key again.''),
                          OpenSelectKey, SetIsApiKeyChecked True, SetState ERROR]) \<and>
         (\<not> (\<exists>m. message err = Some m \<and> includes_str m ''Requested entity was not found'') \<longrightarrow>
            state (onload env base64 w) = ERROR \<and>
            error (onload env base64 w) =
              Some (case message err of
                      None \<Rightarrow> ''An unexpected error occurred.''
                    | Some m \<Rightarrow> if m = [] then ''An unexpected error occurred.'' else m) \<and>
            isApiKeyChecked (onload env base64 w) = isApiKeyChecked w \<and>
            trace (onload env base64 w) =
              trace w' @ [SetError (Some (case message err of
                      None \<Rightarrow> ''An unexpected error occurred.''
                    | Some m \<Rightarrow> if m = [] then ''An unexpected error occurred.'' else m)),
                          SetState ERROR] \<and>
            OpenSelectKey \<notin> set (run_events w (onload env base64 w)))"
proof (intro conjI impI)
  have ol: "onload env base64 w = catch_block err w'"
    using tb by (simp add: onload_def)
  from try_block_Inl [OF tb] obtain evs where evs:
    "trace w' = trace (setImagePreview (Some base64) w) @ evs" "OpenSelectKey \<notin> set evs"
    "isApiKeyChecked w' = isApiKeyChecked (setImagePreview (Some base64) w)"
    by blast
  {
    assume "\<exists>m. message err = Some m \<and> includes_str m ''Requested entity was not found''"
    then obtain m where m: "message err = Some m"
      "includes_str m ''Requested entity was not found''" by blast
    note cb = catch_block_expired [OF m]
    show "state (onload env base64 w) = ERROR"
      and "error (onload env base64 w) =
              Some ''API key session expired. Please select your key again.''"
      and "isApiKeyChecked (onload env base64 w)"
      and "trace (onload env base64 w) =
              trace w' @ [SetError (Some ''API key session expired. Please select your key again.''),
                          OpenSelectKey, SetIsApiKeyChecked True, SetState ERROR]"
      by (simp_all add: ol cb app_defs)
  }
  {
    let ?msg = "case message err of
                      None \<Rightarrow> ''An unexpected error occurred.''
                    | Some m \<Rightarrow> if m = [] then ''An unexpected error occurred.'' else m"
    assume no: "\<not> (\<exists>m. message err = Some m \<and> includes_str m ''Requested entity was not found'')"
    have cb: "catch_block err w' = setState ERROR (setError (Some ?msg) w')"
      using catch_block_generic [OF no] by (simp add: or_else_def)
    show "state (onload env base64 w) = ERROR"
      and "error (onload env base64 w) = Some ?msg"
      and tr: "trace (onload env base64 w) = trace w' @ [SetError (Some ?msg), SetState ERROR]"
      by (simp_all add: ol cb app_defs)
    show "isApiKeyChecked (onload env base64 w) = isApiKeyChecked w"
      using evs(3) by (simp add: ol cb app_defs)
    have "trace (onload env base64 w) =
            trace w @ (SetImagePreview (Some base64) # evs @ [SetError (Some ?msg), SetState ERROR])"
      using tr evs(1) by (simp add: app_defs)
    from run_events_append [OF this] evs(2)
    show "OpenSelectKey \<notin> set (run_events w (onload env base64 w))"
      by simp
  }
qed


lemma or_else_nonempty: "d \<noteq> [] \<Longrightarrow> or_else x d \<noteq> []"
  by (simp add: or_else_def split: option.splits)

lemma identifyLandmark_nonempty: "identifyLandmark ai0 b = Inr nm \<Longrightarrow> nm \<noteq> []"
  by (auto simp add: identifyLandmark_def or_else_def split: sum.splits option.splits if_splits)

lemma getLandmarkHistory_nonempty: "getLandmarkHistory ai0 nm = Inr (h, srcs) \<Longrightarrow> h \<noteq> []"
  by (auto simp add: getLandmarkHistory_def or_else_def split: sum.splits option.splits if_splits)

lemma generateNarration_nonempty: "generateNarration ai0 h = Inr d \<Longrightarrow> d \<noteq> []"
  by (auto simp add: generateNarration_def split: sum.splits option.splits if_splits)

text \<open>The two outcomes of a run that passed the credential check.\<close>

lemma run_failed:
  assumes key: "hasSelectedApiKey env \<or> isApiKeyChecked w"
    and tb: "try_block env file (submitted file w) = (Inl err, w2)"
  shows "state (processImage env file w) = ERROR"
    and "analysis (processImage env file w) = None"
    and "playing (processImage env file w) = playing w"
    and "analysis_updates (run_events w (processImage env file w)) = [None]"
    and "stopped_nodes (run_events w (processImage env file w)) = []"
    and "before_reset (run_events w (processImage env file w)) = []"
proof -
  have run: "processImage env file w = catch_block err w2"
    using key tb by (simp add: processImage_keyed)
  from try_block_Inl [OF tb] obtain evs where evs:
    "trace w2 = trace (submitted file w) @ evs" "analysis_updates evs = []"
    "stopped_nodes evs = []" "analysis w2 = analysis (submitted file w)"
    "playing w2 = playing (submitted file w)"
    by blast
  from catch_block_fields(4) [of err w2] obtain cvs where cvs:
    "trace (catch_block err w2) = trace w2 @ cvs" "analysis_updates cvs = []"
    "stopped_nodes cvs = []"
    by blast
  have "trace (processImage env file w) =
        trace w @ ([SetState LOADING_IMAGE, SetError None, SetAnalysis None,
                    SetImagePreview (Some file)] @ evs @ cvs)"
    by (simp add: run cvs(1) evs(1) submitted_trace)
  note ev = run_events_append [OF this]
  show "state (processImage env file w) = ERROR"
    by (simp add: run catch_block_fields)
  show "analysis (processImage env file w) = None"
    by (simp add: run catch_block_fields evs(4) submitted_fields)
  show "playing (processImage env file w) = playing w"
    by (simp add: run catch_block_fields evs(5) submitted_fields)
  show "analysis_updates (run_events w (processImage env file w)) = [None]"
    by (simp add: ev analysis_updates_append evs(2) cvs(2))
  show "stopped_nodes (run_events w (processImage env file w)) = []"
    by (simp add: ev stopped_nodes_append evs(3) cvs(3))
  show "before_reset (run_events w (processImage env file w)) = []"
    by (simp add: ev)
qed

lemma run_succeeded:
  assumes key: "hasSelectedApiKey env \<or> isApiKeyChecked w"
    and tb: "try_block env file (submitted file w) = (Inr u, w2)"
  shows "\<exists>nm h srcs d post.
           identifyLandmark (ai env) file = Inr nm \<and> nm \<noteq> ''Unknown'' \<and>
           getLandmarkHistory (ai env) nm = Inr (h, srcs) \<and>
           generateNarration (ai env) h = Inr d \<and>
           state (processImage env file w) = PLAYING \<and>
           analysis (processImage env file w) =
             Some \<lparr> name = nm, history = h, sources = srcs, audioData = Some d \<rparr> \<and>
           run_events w (processImage env file w) =
             [SetState LOADING_IMAGE, SetError None, SetAnalysis None,
              SetImagePreview (Some file), Call (IdentifyLandmark file),
              SetState SEARCHING_HISTORY, Call (GetLandmarkHistory nm),
              SetState GENERATING_AUDIO, Call (GenerateNarration h),
              SetAnalysis (Some \<lparr> name = nm, history = h, sources = srcs, audioData = Some d \<rparr>),
              SetState PLAYING]
             @ (case audioSourceRef w of None \<Rightarrow> [] | Some node \<Rightarrow> [Stop node]) @ post \<and>
           analysis_updates post = [] \<and> stopped_nodes post = [] \<and>
           (post = [] \<or> (\<exists>buffer. post = [Start (nodes w) buffer]))"
proof -
  from try_block_Inr [OF tb] obtain nm h srcs d where
    s: "identifyLandmark (ai env) file = Inr nm" "nm \<noteq> ''Unknown''"
       "getLandmarkHistory (ai env) nm = Inr (h, srcs)"
       "generateNarration (ai env) h = Inr d"
    by blast
  let ?a = "\<lparr> name = nm, history = h, sources = srcs, audioData = Some d \<rparr>"
  let ?w7 = "setState PLAYING (setAnalysis (Some ?a)
          (emit (Call (GenerateNarration h)) (setState GENERATING_AUDIO
            (emit (Call (GetLandmarkHistory nm)) (setState SEARCHING_HISTORY
              (emit (Call (IdentifyLandmark file)) (submitted file w)))))))"
  have run: "processImage env file w = snd (playAudio env d ?w7)"
    using key by (simp add: processImage_keyed try_block_success [OF s])
  have w7: "trace ?w7 = trace w @
             [SetState LOADING_IMAGE, SetError None, SetAnalysis None,
              SetImagePreview (Some file), Call (IdentifyLandmark file),
              SetState SEARCHING_HISTORY, Call (GetLandmarkHistory nm),
              SetState GENERATING_AUDIO, Call (GenerateNarration h),
              SetAnalysis (Some ?a), SetState PLAYING]"
    "audioSourceRef ?w7 = audioSourceRef w" "nodes ?w7 = nodes w"
    "state ?w7 = PLAYING" "analysis ?w7 = Some ?a"
    by (simp_all add: submitted_trace app_defs submitted_def)
  from playAudio_trace [of env d ?w7] obtain post where post:
    "trace (snd (playAudio env d ?w7)) =
      trace ?w7 @ (case audioSourceRef ?w7 of None \<Rightarrow> [] | Some node \<Rightarrow> [Stop node]) @ post"
    "analysis_updates post = []" "stopped_nodes post = []"
    "post = [] \<or> (\<exists>buffer. post = [Start (nodes ?w7) buffer])"
    by blast
  have "trace (processImage env file w) = trace w @
             ([SetState LOADING_IMAGE, SetError None, SetAnalysis None,
              SetImagePreview (Some file), Call (IdentifyLandmark file),
              SetState SEARCHING_HISTORY, Call (GetLandmarkHistory nm),
              SetState GENERATING_AUDIO, Call (GenerateNarration h),
              SetAnalysis (Some ?a), SetState PLAYING]
             @ (case audioSourceRef w of None \<Rightarrow> [] | Some node \<Rightarrow> [Stop node]) @ post)"
    unfolding run post(1) w7(1,2) by simp
  note ev = run_events_append [OF this]
  have "state (processImage env file w) = PLAYING"
    and "analysis (processImage env file w) = Some ?a"
    by (simp_all only: run playAudio_fields w7)
  with s ev post(2,3,4) w7(3) show ?thesis
    by (intro exI [of _ nm] exI [of _ h] exI [of _ srcs] exI [of _ d] exI [of _ post]) simp
qed

text \<open>
  Claim C10. In every run that the credential check lets through the analysis is first
  set to null. Either no other update follows, the analysis stays null and the run ends in \<open>ERROR\<close>; or exactly
  one other update follows, after all three stages have succeeded, to an analysis whose
  name, history, sources and audio are the results of the three stages, with a non-empty
  name other than "Unknown", a non-empty history and a non-empty audio payload.
\<close>

theorem analysis_atomic:
  assumes key: "hasSelectedApiKey env \<or> isApiKeyChecked w"
  shows "(analysis_updates (run_events w (processImage env file w)) = [None] \<and>
            analysis (processImage env file w) = None \<and>
            state (processImage env file w) = ERROR)
       \<or> (\<exists>a d. analysis_updates (run_events w (processImage env file w)) = [None, Some a] \<and>
            analysis (processImage env file w) = Some a \<and>
            state (processImage env file w) = PLAYING \<and>
            identifyLandmark (ai env) file = Inr (name a) \<and>
            name a \<noteq> [] \<and> name a \<noteq> ''Unknown'' \<and>
            getLandmarkHistory (ai env) (name a) = Inr (history a, sources a) \<and>
            history a \<noteq> [] \<and>
            generateNarration (ai env) (history a) = Inr d \<and>
            audioData a = Some d \<and> d \<noteq> [])"
proof (cases "try_block env file (submitted file w)")
  case (Pair r w2)
  show ?thesis
  proof (cases r)
    case (Inl err)
    with Pair have tb: "try_block env file (submitted file w) = (Inl err, w2)" by simp
    from run_failed(1,2,4) [OF key tb] show ?thesis by simp
  next
    case (Inr u)
    with Pair have tb: "try_block env file (submitted file w) = (Inr u, w2)" by simp
    from run_succeeded [OF key tb] obtain nm h srcs d post where
      s: "identifyLandmark (ai env) file = Inr nm" "nm \<noteq> ''Unknown''"
         "getLandmarkHistory (ai env) nm = Inr (h, srcs)"
         "generateNarration (ai env) h = Inr d"
         "state (processImage env file w) = PLAYING"
         "analysis (processImage env file w) =
             Some \<lparr> name = nm, history = h, sources = srcs, audioData = Some d \<rparr>"
      and ev: "run_events w (processImage env file w) =
             [SetState LOADING_IMAGE, SetError None, SetAnalysis None,
              SetImagePreview (Some file), Call (IdentifyLandmark file),
              SetState SEARCHING_HISTORY, Call (GetLandmarkHistory nm),
              SetState GENERATING_AUDIO, Call (GenerateNarration h),
              SetAnalysis (Some \<lparr> name = nm, history = h, sources = srcs, audioData = Some d \<rparr>),
              SetState PLAYING]
             @ (case audioSourceRef w of None \<Rightarrow> [] | Some node \<Rightarrow> [Stop node]) @ post"
      and post: "analysis_updates post = []"
      by blast
    let ?a = "\<lparr> name = nm, history = h, sources = srcs, audioData = Some d \<rparr>"
    have up: "analysis_updates (run_events w (processImage env file w)) = [None, Some ?a]"
      by (simp add: ev analysis_updates_append post split: option.splits)
    have ne: "nm \<noteq> []" "h \<noteq> []" "d \<noteq> []"
      using identifyLandmark_nonempty [OF s(1)] getLandmarkHistory_nonempty [OF s(3)]
        generateNarration_nonempty [OF s(4)] by simp_all
    have "\<exists>a d. analysis_updates (run_events w (processImage env file w)) = [None, Some a] \<and>
            analysis (processImage env file w) = Some a \<and>
            state (processImage env file w) = PLAYING \<and>
            identifyLandmark (ai env) file = Inr (name a) \<and>
            name a \<noteq> [] \<and> name a \<noteq> ''Unknown'' \<and>
            getLandmarkHistory (ai env) (name a) = Inr (history a, sources a) \<and>
            history a \<noteq> [] \<and>
            generateNarration (ai env) (history a) = Inr d \<and>
            audioData a = Some d \<and> d \<noteq> []"
      using up s ne by (intro exI [of _ ?a] exI [of _ d]) simp
    then show ?thesis by (rule disjI2)
  qed
qed

text \<open>
  \<^verbatim>\<open>processImage\<close> by itself: the node that \<^verbatim>\<open>audioSourceRef\<close> refers to is stopped by
  \<^verbatim>\<open>playAudio\<close>, after the state is set to \<open>PLAYING\<close>, and in a run that fails not at all.
\<close>

lemma processImage_stops_in_playAudio:
  assumes key: "hasSelectedApiKey env \<or> isApiKeyChecked w"
    and ref: "audioSourceRef w = Some node"
  shows "stopped_nodes (before_reset (run_events w (processImage env file w))) = [] \<and>
         (state (processImage env file w) = ERROR \<and>
            stopped_nodes (run_events w (processImage env file w)) = [] \<and>
            playing (processImage env file w) = playing w
          \<or> state (processImage env file w) = PLAYING \<and>
            (\<exists>pre post. run_events w (processImage env file w) =
                 pre @ [SetState PLAYING, Stop node] @ post \<and>
               SetState LOADING_IMAGE \<in> set pre \<and>
               stopped_nodes pre = [] \<and> stopped_nodes post = [] \<and>
               (post = [] \<or> (\<exists>buffer. post = [Start (nodes w) buffer]))))"
proof (cases "try_block env file (submitted file w)")
  case (Pair r w2)
  show ?thesis
  proof (cases r)
    case (Inl err)
    with Pair have tb: "try_block env file (submitted file w) = (Inl err, w2)" by simp
    from run_failed(1,3,5,6) [OF key tb] show ?thesis by simp
  next
    case (Inr u)
    with Pair have tb: "try_block env file (submitted file w) = (Inr u, w2)" by simp
    from run_succeeded [OF key tb] obtain nm h srcs d post where
      st: "state (processImage env file w) = PLAYING"
      and ev: "run_events w (processImage env file w) =
             [SetState LOADING_IMAGE, SetError None, SetAnalysis None,
              SetImagePreview (Some file), Call (IdentifyLandmark file),
              SetState SEARCHING_HISTORY, Call (GetLandmarkHistory nm),
              SetState GENERATING_AUDIO, Call (GenerateNarration h),
              SetAnalysis (Some \<lparr> name = nm, history = h, sources = srcs, audioData = Some d \<rparr>),
              SetState PLAYING]
             @ (case audioSourceRef w of None \<Rightarrow> [] | Some node \<Rightarrow> [Stop node]) @ post"
      and post: "stopped_nodes post = []"
        "post = [] \<or> (\<exists>buffer. post = [Start (nodes w) buffer])"
      by blast
    let ?pre = "[SetState LOADING_IMAGE, SetError None, SetAnalysis None,
              SetImagePreview (Some file), Call (IdentifyLandmark file),
              SetState SEARCHING_HISTORY, Call (GetLandmarkHistory nm),
              SetState GENERATING_AUDIO, Call (GenerateNarration h),
              SetAnalysis (Some \<lparr> name = nm, history = h, sources = srcs, audioData = Some d \<rparr>)]"
    have ev': "run_events w (processImage env file w) = ?pre @ [SetState PLAYING, Stop node] @ post"
      by (simp add: ev ref)
    have "before_reset (run_events w (processImage env file w)) = []"
      by (simp add: ev)
    moreover have "\<exists>pre post. run_events w (processImage env file w) =
                 pre @ [SetState PLAYING, Stop node] @ post \<and>
               SetState LOADING_IMAGE \<in> set pre \<and>
               stopped_nodes pre = [] \<and> stopped_nodes post = [] \<and>
               (post = [] \<or> (\<exists>buffer. post = [Start (nodes w) buffer]))"
      using ev' post by (intro exI [of _ ?pre] exI [of _ post]) simp
    ultimately show ?thesis using st by simp
  qed
qed

text \<open>\<^verbatim>\<open>stopExperience\<close> stops the playback first and resets the state after.\<close>

lemma stopExperience_stops_first:
  "audioSourceRef w = Some node \<Longrightarrow>
   run_events w (stopExperience w) =
     [Stop node, SetState IDLE, SetAnalysis None, SetImagePreview None]"
  by (simp add: stopExperience_def run_events_def app_defs)



subsection \<open>Sessions\<close>

lemma active_from_append:
  "active_from acc (xs @ ys) = active_from (active_from acc xs) ys"
  by (induction acc xs rule: active_from.induct) simp_all


lemma active_from_quiet:
  "\<forall>e\<in>set es. \<not> is_audio e \<Longrightarrow> active_from acc es = acc"
  by (induction acc es rule: active_from.induct) simp_all

lemma split_at_event:
  assumes "old @ evs = pre @ e # post"
  shows "(\<exists>post'. old = pre @ e # post') \<or> (\<exists>pre'. pre = old @ pre' \<and> evs = pre' @ e # post)"
  using assms by (auto simp add: append_eq_append_conv2 append_eq_Cons_conv)

text \<open>What a throw of the try block, the catch block and \<^verbatim>\<open>playAudio\<close> do to the audio.\<close>

lemma try_block_Inl_audio:
  assumes "try_block env b w = (Inl err, w')"
  shows "\<exists>evs. trace w' = trace w @ evs \<and> (\<forall>e\<in>set evs. \<not> is_audio e)
           \<and> SetState LOADING_IMAGE \<notin> set evs
           \<and> playing w' = playing w \<and> audioSourceRef w' = audioSourceRef w"
  using assms
  by (auto simp add: try_block_def Let_def app_defs split: sum.splits if_splits prod.splits)

lemma catch_block_audio:
  "\<exists>evs. trace (catch_block err w) = trace w @ evs \<and> (\<forall>e\<in>set evs. \<not> is_audio e)
      \<and> SetState LOADING_IMAGE \<notin> set evs
      \<and> playing (catch_block err w) = playing w
      \<and> audioSourceRef (catch_block err w) = audioSourceRef w
      \<and> state (catch_block err w) = ERROR"
  by (simp add: catch_block_def app_defs Let_def)

lemma playAudio_audio:
  "\<exists>evs. trace (snd (playAudio env d w)) = trace w @ evs
      \<and> SetState LOADING_IMAGE \<notin> set evs
      \<and> playing (snd (playAudio env d w)) = active_from (playing w) evs
      \<and> (playing w = [] \<longrightarrow>
            (\<forall>n\<in>set (playing (snd (playAudio env d w))).
               audioSourceRef (snd (playAudio env d w)) = Some n))
      \<and> state (snd (playAudio env d w)) = state w"
  by (simp add: playAudio_def Let_def app_defs split: option.splits sum.splits)


text \<open>
  One step of a session: if the step appends events that account for the nodes playing
  and resets the state to \<open>LOADING_IMAGE\<close> at most once, as its first event and with nothing
  playing, then no reset of the longer trace finds a node playing.
\<close>

lemma step_resets:
  assumes a: "playing w = active_nodes (trace w)"
    and d: "\<forall>pre post. trace w = pre @ SetState LOADING_IMAGE # post \<longrightarrow> active_nodes pre = []"
    and t: "trace w' = trace w @ evs"
    and p: "playing w' = active_from (playing w) evs"
    and r: "SetState LOADING_IMAGE \<notin> set evs \<or>
            (playing w = [] \<and> (\<exists>rest. evs = SetState LOADING_IMAGE # rest
                                   \<and> SetState LOADING_IMAGE \<notin> set rest))"
  shows "playing w' = active_nodes (trace w')"
    and "\<forall>pre post. trace w' = pre @ SetState LOADING_IMAGE # post \<longrightarrow> active_nodes pre = []"
proof -
  show "playing w' = active_nodes (trace w')"
    by (simp add: p t a active_nodes_def active_from_append)
  show "\<forall>pre post. trace w' = pre @ SetState LOADING_IMAGE # post \<longrightarrow> active_nodes pre = []"
  proof (intro allI impI)
    fix pre post
    assume "trace w' = pre @ SetState LOADING_IMAGE # post"
    then have "trace w @ evs = pre @ SetState LOADING_IMAGE # post" by (simp add: t)
    from split_at_event [OF this]
    show "active_nodes pre = []"
    proof
      assume "\<exists>post'. trace w = pre @ SetState LOADING_IMAGE # post'"
      with d show ?thesis by blast
    next
      assume "\<exists>pre'. pre = trace w @ pre' \<and> evs = pre' @ SetState LOADING_IMAGE # post"
      then obtain pre' where pre': "pre = trace w @ pre'"
        "evs = pre' @ SetState LOADING_IMAGE # post" by blast
      then have "SetState LOADING_IMAGE \<in> set evs" by simp
      with r obtain rest where e: "playing w = []" "evs = SetState LOADING_IMAGE # rest"
        "SetState LOADING_IMAGE \<notin> set rest" by blast
      have "pre' = []"
      proof (cases pre')
        case Nil then show ?thesis .
      next
        case (Cons x xs)
        with pre'(2) e(2) have "rest = xs @ SetState LOADING_IMAGE # post" by simp
        with e(3) show ?thesis by simp
      qed
      with pre'(1) a e(1) show ?thesis by simp
    qed
  qed
qed

lemma handleApiKeySelection_audio:
  "trace (handleApiKeySelection w) = trace w @ [OpenSelectKey, SetIsApiKeyChecked True]"
  "playing (handleApiKeySelection w) = playing w"
  "state (handleApiKeySelection w) = state w"
  "audioSourceRef (handleApiKeySelection w) = audioSourceRef w"
  by (simp_all add: app_defs)

lemma processImage_audio:
  assumes quiet: "playing w = []"
  shows "\<exists>evs. trace (processImage env file w) = trace w @ evs
      \<and> playing (processImage env file w) = active_from (playing w) evs
      \<and> (SetState LOADING_IMAGE \<notin> set evs \<or>
           (\<exists>rest. evs = SetState LOADING_IMAGE # rest \<and> SetState LOADING_IMAGE \<notin> set rest))
      \<and> (\<forall>n\<in>set (playing (processImage env file w)).
             audioSourceRef (processImage env file w) = Some n)
      \<and> (state (processImage env file w) \<noteq> PLAYING \<longrightarrow> playing (processImage env file w) = [])"
proof (cases "hasSelectedApiKey env \<or> isApiKeyChecked w")
  case False
  then have "processImage env file w = handleApiKeySelection w"
    by (simp add: processImage_def)
  then show ?thesis
    using quiet by (intro exI [of _ "[OpenSelectKey, SetIsApiKeyChecked True]"])
      (simp add: handleApiKeySelection_audio)
next
  case key: True
  let ?sub = "[SetError None, SetAnalysis None, SetImagePreview (Some file)]"
  have subp: "playing (submitted file w) = []"
    using quiet by (simp add: submitted_fields)
  show ?thesis
  proof (cases "try_block env file (submitted file w)")
    case (Pair r w2)
    show ?thesis
    proof (cases r)
      case (Inl err)
      with Pair have tb: "try_block env file (submitted file w) = (Inl err, w2)" by simp
      have run: "processImage env file w = catch_block err w2"
        using key tb by (simp add: processImage_keyed)
      from try_block_Inl_audio [OF tb] obtain tevs where tevs:
        "trace w2 = trace (submitted file w) @ tevs" "\<forall>e\<in>set tevs. \<not> is_audio e"
        "SetState LOADING_IMAGE \<notin> set tevs" "playing w2 = playing (submitted file w)"
        by blast
      from catch_block_audio [of err w2] obtain cevs where cevs:
        "trace (catch_block err w2) = trace w2 @ cevs" "\<forall>e\<in>set cevs. \<not> is_audio e"
        "SetState LOADING_IMAGE \<notin> set cevs" "playing (catch_block err w2) = playing w2"
        "state (catch_block err w2) = ERROR"
        by blast
      let ?rest = "?sub @ tevs @ cevs"
      have tr: "trace (processImage env file w) = trace w @ SetState LOADING_IMAGE # ?rest"
        by (simp add: run cevs(1) tevs(1) submitted_trace)
      have pl: "playing (processImage env file w) = []"
        by (simp add: run cevs(4) tevs(4) subp)
      have "\<forall>e\<in>set (SetState LOADING_IMAGE # ?rest). \<not> is_audio e"
        using tevs(2) cevs(2) by auto
      then have af: "active_from (playing w) (SetState LOADING_IMAGE # ?rest) = playing w"
        by (rule active_from_quiet)
      have nl: "SetState LOADING_IMAGE \<notin> set ?rest"
        using tevs(3) cevs(3) by simp
      show ?thesis
        using tr pl af nl quiet
        by (intro exI [of _ "SetState LOADING_IMAGE # ?rest"]) simp
    next
      case (Inr u)
      with Pair have tb: "try_block env file (submitted file w) = (Inr u, w2)" by simp
      from try_block_Inr [OF tb] obtain nm h srcs d where
        s: "identifyLandmark (ai env) file = Inr nm" "nm \<noteq> ''Unknown''"
           "getLandmarkHistory (ai env) nm = Inr (h, srcs)"
           "generateNarration (ai env) h = Inr d"
        by blast
      let ?a = "\<lparr> name = nm, history = h, sources = srcs, audioData = Some d \<rparr>"
      let ?w7 = "setState PLAYING (setAnalysis (Some ?a)
          (emit (Call (GenerateNarration h)) (setState GENERATING_AUDIO
            (emit (Call (GetLandmarkHistory nm)) (setState SEARCHING_HISTORY
              (emit (Call (IdentifyLandmark file)) (submitted file w)))))))"
      let ?mid = "?sub @ [Call (IdentifyLandmark file),
              SetState SEARCHING_HISTORY, Call (GetLandmarkHistory nm),
              SetState GENERATING_AUDIO, Call (GenerateNarration h),
              SetAnalysis (Some ?a), SetState PLAYING]"
      have run: "processImage env file w = snd (playAudio env d ?w7)"
        using key by (simp add: processImage_keyed try_block_success [OF s])
      have w7: "trace ?w7 = trace w @ SetState LOADING_IMAGE # ?mid"
        "playing ?w7 = []" "state ?w7 = PLAYING"
        using quiet by (simp_all add: submitted_trace app_defs submitted_def)
      from playAudio_audio [of env d ?w7] obtain pevs where pevs:
        "trace (snd (playAudio env d ?w7)) = trace ?w7 @ pevs"
        "SetState LOADING_IMAGE \<notin> set pevs"
        "playing (snd (playAudio env d ?w7)) = active_from (playing ?w7) pevs"
        "playing ?w7 = [] \<longrightarrow> (\<forall>n\<in>set (playing (snd (playAudio env d ?w7))).
               audioSourceRef (snd (playAudio env d ?w7)) = Some n)"
        "state (snd (playAudio env d ?w7)) = state ?w7"
        by blast
      let ?rest = "?mid @ pevs"
      have tr: "trace (processImage env file w) = trace w @ SetState LOADING_IMAGE # ?rest"
        unfolding run pevs(1) w7(1) by simp
      have "\<forall>e\<in>set (SetState LOADING_IMAGE # ?mid). \<not> is_audio e" by simp
      then have "active_from (playing w) (SetState LOADING_IMAGE # ?mid) = playing w"
        by (rule active_from_quiet)
      then have af: "active_from (playing w) (SetState LOADING_IMAGE # ?rest)
                   = active_from [] pevs"
        using active_from_append [of "playing w" "SetState LOADING_IMAGE # ?mid" pevs] quiet
        by simp
      have pl: "playing (processImage env file w) = active_from [] pevs"
        unfolding run pevs(3) w7(2) ..
      have nl: "SetState LOADING_IMAGE \<notin> set ?rest"
        using pevs(2) by simp
      have b: "\<forall>n\<in>set (playing (processImage env file w)).
             audioSourceRef (processImage env file w) = Some n"
        unfolding run using pevs(4) w7(2) by blast
      have c: "state (processImage env file w) = PLAYING"
        unfolding run pevs(5) w7(3) ..
      show ?thesis
        using tr pl af nl b c
        by (intro exI [of _ "SetState LOADING_IMAGE # ?rest"]) simp
    qed
  qed
qed

lemma removeAll_only:
  "\<forall>n\<in>set xs. n = node \<Longrightarrow> removeAll node xs = []"
  by (induction xs) simp_all

lemma stopExperience_audio:
  assumes b: "\<forall>n\<in>set (playing w). audioSourceRef w = Some n"
  shows "\<exists>evs. trace (stopExperience w) = trace w @ evs
      \<and> playing (stopExperience w) = active_from (playing w) evs
      \<and> SetState LOADING_IMAGE \<notin> set evs
      \<and> playing (stopExperience w) = []
      \<and> state (stopExperience w) = IDLE"
proof (cases "audioSourceRef w")
  case None
  with b have "playing w = []" by (cases "playing w") auto
  with None show ?thesis
    by (intro exI [of _ "[SetState IDLE, SetAnalysis None, SetImagePreview None]"])
       (simp add: stopExperience_def app_defs)
next
  case (Some node)
  with b have "\<forall>n\<in>set (playing w). n = node" by auto
  then have "removeAll node (playing w) = []"
    by (rule removeAll_only)
  with Some show ?thesis
    by (intro exI [of _ "[Stop node, SetState IDLE, SetAnalysis None, SetImagePreview None]"])
       (simp add: stopExperience_def app_defs)
qed

text \<open>The invariant of a session.\<close>

lemma handle_invariant:
  assumes a: "playing w = active_nodes (trace w)"
    and b: "\<forall>n\<in>set (playing w). audioSourceRef w = Some n"
    and c: "state w \<noteq> PLAYING \<longrightarrow> playing w = []"
    and d: "\<forall>pre post. trace w = pre @ SetState LOADING_IMAGE # post \<longrightarrow> active_nodes pre = []"
  shows "playing (handle act w) = active_nodes (trace (handle act w)) \<and>
         (\<forall>n\<in>set (playing (handle act w)). audioSourceRef (handle act w) = Some n) \<and>
         (state (handle act w) \<noteq> PLAYING \<longrightarrow> playing (handle act w) = []) \<and>
         (\<forall>pre post. trace (handle act w) = pre @ SetState LOADING_IMAGE # post
            \<longrightarrow> active_nodes pre = [])"
proof (cases act)
  case (ChooseFile env f)
  show ?thesis
  proof (cases "state w = IDLE")
    case True
    with c have quiet: "playing w = []" by simp
    from processImage_audio [OF quiet, of env f] obtain evs where evs:
      "trace (processImage env f w) = trace w @ evs"
      "playing (processImage env f w) = active_from (playing w) evs"
      "SetState LOADING_IMAGE \<notin> set evs \<or>
           (\<exists>rest. evs = SetState LOADING_IMAGE # rest \<and> SetState LOADING_IMAGE \<notin> set rest)"
      "\<forall>n\<in>set (playing (processImage env f w)).
             audioSourceRef (processImage env f w) = Some n"
      "state (processImage env f w) \<noteq> PLAYING \<longrightarrow> playing (processImage env f w) = []"
      by blast
    from evs(3) quiet have r: "SetState LOADING_IMAGE \<notin> set evs \<or>
            (playing w = [] \<and> (\<exists>rest. evs = SetState LOADING_IMAGE # rest
                                   \<and> SetState LOADING_IMAGE \<notin> set rest))"
      by blast
    from step_resets [OF a d evs(1) evs(2) r] evs(4,5) ChooseFile True
    show ?thesis by simp
  next
    case False
    with ChooseFile a b c d show ?thesis by simp
  qed
next
  case FinishTour
  show ?thesis
  proof (cases "state w \<noteq> IDLE \<and> state w \<noteq> ERROR \<and> analysis w \<noteq> None")
    case True
    from stopExperience_audio [OF b] obtain evs where evs:
      "trace (stopExperience w) = trace w @ evs"
      "playing (stopExperience w) = active_from (playing w) evs"
      "SetState LOADING_IMAGE \<notin> set evs"
      "playing (stopExperience w) = []"
      by blast
    from evs(3) have r: "SetState LOADING_IMAGE \<notin> set evs \<or>
            (playing w = [] \<and> (\<exists>rest. evs = SetState LOADING_IMAGE # rest
                                   \<and> SetState LOADING_IMAGE \<notin> set rest))"
      by blast
    from step_resets [OF a d evs(1) evs(2) r] evs(4) FinishTour True
    show ?thesis by simp
  next
    case False
    with FinishTour a b c d show ?thesis by auto
  qed
next
  case TryAnotherPhoto
  show ?thesis
  proof (cases "state w = ERROR")
    case True
    with c have quiet: "playing w = []" by simp
    have t: "trace (setState IDLE w) = trace w @ [SetState IDLE]"
      and p: "playing (setState IDLE w) = active_from (playing w) [SetState IDLE]"
      by (simp_all add: app_defs)
    have r: "SetState LOADING_IMAGE \<notin> set [SetState IDLE] \<or>
            (playing w = [] \<and> (\<exists>rest. [SetState IDLE] = SetState LOADING_IMAGE # rest
                                   \<and> SetState LOADING_IMAGE \<notin> set rest))"
      by simp
    have q: "playing (setState IDLE w) = []" using quiet by (simp add: app_defs)
    from step_resets [OF a d t p r] q TryAnotherPhoto True
    show ?thesis by simp
  next
    case False
    with TryAnotherPhoto a b c d show ?thesis by simp
  qed
next
  case ChangeApiKey
  let ?evs = "[OpenSelectKey, SetIsApiKeyChecked True]"
  have t: "trace (handleApiKeySelection w) = trace w @ ?evs"
    by (rule handleApiKeySelection_audio)
  have p: "playing (handleApiKeySelection w) = active_from (playing w) ?evs"
    by (simp add: handleApiKeySelection_audio)
  have r: "SetState LOADING_IMAGE \<notin> set ?evs \<or>
            (playing w = [] \<and> (\<exists>rest. ?evs = SetState LOADING_IMAGE # rest
                                   \<and> SetState LOADING_IMAGE \<notin> set rest))"
    by simp
  from step_resets [OF a d t p r] b c ChangeApiKey
  show ?thesis by (simp add: handleApiKeySelection_audio)
qed

lemma session_invariant:
  assumes "playing w = active_nodes (trace w)"
    and "\<forall>n\<in>set (playing w). audioSourceRef w = Some n"
    and "state w \<noteq> PLAYING \<longrightarrow> playing w = []"
    and "\<forall>pre post. trace w = pre @ SetState LOADING_IMAGE # post \<longrightarrow> active_nodes pre = []"
  shows "playing (session acts w) = active_nodes (trace (session acts w)) \<and>
         (\<forall>n\<in>set (playing (session acts w)). audioSourceRef (session acts w) = Some n) \<and>
         (state (session acts w) \<noteq> PLAYING \<longrightarrow> playing (session acts w) = []) \<and>
         (\<forall>pre post. trace (session acts w) = pre @ SetState LOADING_IMAGE # post
            \<longrightarrow> active_nodes pre = [])"
  using assms
proof (induction acts arbitrary: w)
  case Nil
  then show ?case by simp
next
  case (Cons act acts)
  from handle_invariant [OF Cons.prems, of act]
  have "playing (session acts (handle act w)) = active_nodes (trace (session acts (handle act w))) \<and>
         (\<forall>n\<in>set (playing (session acts (handle act w))).
            audioSourceRef (session acts (handle act w)) = Some n) \<and>
         (state (session acts (handle act w)) \<noteq> PLAYING
            \<longrightarrow> playing (session acts (handle act w)) = []) \<and>
         (\<forall>pre post. trace (session acts (handle act w)) = pre @ SetState LOADING_IMAGE # post
            \<longrightarrow> active_nodes pre = [])"
    by (intro Cons.IH) blast+
  then show ?case unfolding session.simps .
qed

text \<open>
  Claim C7. In every session of the component, that is after any sequence of user actions
  from the mounted component, whenever the state is reset to \<open>LOADING_IMAGE\<close> because an
  image was submitted, no playback is active: every node that was started before the reset
  has been stopped before it. An image can be submitted in state \<open>IDLE\<close> only; from
  \<open>PLAYING\<close> that state is reached through \<^verbatim>\<open>stopExperience\<close>, which stops the playback
  first, and in \<open>ERROR\<close> nothing is playing.
\<close>

theorem playback_stopped_before_reset:
  assumes "trace (session acts initial_app) = pre @ SetState LOADING_IMAGE # post"
  shows "active_nodes pre = []"
proof -
  have "playing initial_app = active_nodes (trace initial_app)"
    and "\<forall>n\<in>set (playing initial_app). audioSourceRef initial_app = Some n"
    and "state initial_app \<noteq> PLAYING \<longrightarrow> playing initial_app = []"
    and "\<forall>pre post. trace initial_app = pre @ SetState LOADING_IMAGE # post
           \<longrightarrow> active_nodes pre = []"
    by (simp_all add: initial_app_def active_nodes_def)
  from session_invariant [OF this, of acts] assms show ?thesis by blast
qed

subsection \<open>Base64\<close>


































section \<open>Concrete runs\<close>

lemmas example_defs = scripted_ai_def text_response_def research_response_def audio_response_def
  example_chunks_def example_env_def example_file_def
  example_ai_def unknown_ai_def textless_ai_def silent_ai_def expired_ai_def example_sources_def

lemmas service_defs = identifyLandmark_def identifyLandmark_request_def
  getLandmarkHistory_def getLandmarkHistory_request_def response_sources_def
  response_groundingChunks_def source_of_chunk_def
  generateNarration_def generateNarration_request_def response_audioData_def
  or_else_def trim_def isWhiteSpace_def opt_index_def

lemma example_identify:
  "identifyLandmark (scripted_ai (Inr (text_response (Some '' Eiffel Tower ''))) r n) b = Inr ''Eiffel Tower''"
  by (simp add: service_defs example_defs)

lemma example_identify_unknown:
  "identifyLandmark unknown_ai b = Inr ''Unknown''"
  by (simp add: service_defs example_defs)

lemma example_history:
  "getLandmarkHistory (scripted_ai i (Inr (research_response (Some ''A tower.''))) n) ''Eiffel Tower'' =
     Inr (''A tower.'', example_sources)"
  by (simp add: service_defs example_defs)

lemma example_narration:
  "generateNarration (scripted_ai i r (Inr (audio_response (Some ''AAABAP9/AIA='')))) ''A tower.'' =
     Inr ''AAABAP9/AIA=''"
  by (simp add: service_defs example_defs)

lemma example_atob:
  "forgiving_atob ''AAABAP9/AIA='' = Some (map char_of [0, 0, 1, 0, 255, 127, 0, 128 :: nat])"
  by (simp add: forgiving_atob_def remove_padding_def isAsciiWhitespace_def base64_value_def)

lemma example_decodeBase64:
  "decodeBase64 forgiving_atob ''AAABAP9/AIA='' = Inr [0, 0, 1, 0, 255, 127, 0, 128]"
  by (simp add: decodeBase64_def example_atob decodeBase64_loop.simps charCodeAt_def)

lemma example_decodeAudioData:
  "decodeAudioData [0, 0, 1, 0, 255, 127, 0, 128] example_ctx 24000 1 =
     Inr [[Num 0, Num (1 / 32768), Num (32767 / 32768), Num (- 1)]]"
proof -
  have r: "replicate 4 x = [x, x, x, x]" for x :: number
    by (simp add: numeral_eq_Suc)
  show ?thesis
    by (simp add: decodeAudioData_def Int16Array_def example_ctx_def fill_channels.simps
        fill_frames.simps sample_div_def r)
qed

lemma example_run:
  "run_events playing_app (processImage (example_env example_ai) example_file playing_app) =
     [SetState LOADING_IMAGE, SetError None, SetAnalysis None,
      SetImagePreview (Some example_file), Call (IdentifyLandmark example_file),
      SetState SEARCHING_HISTORY, Call (GetLandmarkHistory ''Eiffel Tower''),
      SetState GENERATING_AUDIO, Call (GenerateNarration ''A tower.''),
      SetAnalysis (Some \<lparr> name = ''Eiffel Tower'', history = ''A tower.'',
        sources = example_sources, audioData = Some ''AAABAP9/AIA='' \<rparr>),
      SetState PLAYING, Stop 0,
      Start 1 [[Num 0, Num (1 / 32768), Num (32767 / 32768), Num (- 1)]]]"
proof -
  have tb: "try_block (example_env example_ai) example_file w = 
     (Inr (),
      snd (playAudio (example_env example_ai) ''AAABAP9/AIA='' (setState PLAYING
        (setAnalysis (Some \<lparr> name = ''Eiffel Tower'', history = ''A tower.'',
             sources = example_sources, audioData = Some ''AAABAP9/AIA='' \<rparr>)
          (emit (Call (GenerateNarration ''A tower.'')) (setState GENERATING_AUDIO
            (emit (Call (GetLandmarkHistory ''Eiffel Tower'')) (setState SEARCHING_HISTORY
              (emit (Call (IdentifyLandmark example_file)) w)))))))))" for w
    by (rule try_block_success)
       (simp_all add: example_ai_def example_env_def example_identify example_history example_narration)
  have pa: "audioSourceRef w = Some 0 \<Longrightarrow> audioContextRef w = Some example_ctx \<Longrightarrow> nodes w = 1 \<Longrightarrow>
     trace (snd (playAudio (example_env example_ai) ''AAABAP9/AIA='' w)) =
       trace w @ [Stop 0, Start 1 [[Num 0, Num (1 / 32768), Num (32767 / 32768), Num (- 1)]]]" for w
    using example_decodeAudioData
    by (simp add: playAudio_def example_env_def example_decodeBase64 Let_def app_defs)
  have "trace (processImage (example_env example_ai) example_file playing_app) = trace playing_app @ 
     [SetState LOADING_IMAGE, SetError None, SetAnalysis None,
      SetImagePreview (Some example_file), Call (IdentifyLandmark example_file),
      SetState SEARCHING_HISTORY, Call (GetLandmarkHistory ''Eiffel Tower''),
      SetState GENERATING_AUDIO, Call (GenerateNarration ''A tower.''),
      SetAnalysis (Some \<lparr> name = ''Eiffel Tower'', history = ''A tower.'',
        sources = example_sources, audioData = Some ''AAABAP9/AIA='' \<rparr>),
      SetState PLAYING, Stop 0,
      Start 1 [[Num 0, Num (1 / 32768), Num (32767 / 32768), Num (- 1)]]]"
    by (simp add: processImage_keyed example_env_def [where ?ai0.0 = example_ai, symmetric] tb pa submitted_def app_defs playing_app_def)
  then show ?thesis by (rule run_events_append)
qed

lemma example_key: "hasSelectedApiKey (example_env a) \<or> isApiKeyChecked w"
  by (simp add: example_env_def)

lemma example_env_ai: "ai (example_env a) = a"
  by (simp add: example_env_def)

text \<open>Four samples on two channels.\<close>

theorem decodeAudioData_pcm16_witness:
  "length [0, 0, 1, 0, 255, 127, 0, 128 :: 8 word] = 2 * 4 \<and> (0::nat) < 2 \<and> (2::nat) dvd 4 \<and>
   createBuffer example_ctx 2 (Num (of_nat 4 / of_nat 2)) 24000
     = Inr [[Num 0, Num 0], [Num 0, Num 0]] \<and>
   (\<exists>buf. decodeAudioData [0, 0, 1, 0, 255, 127, 0, 128] example_ctx 24000 2 = Inr buf \<and>
      length buf = 2 \<and> length (buf ! 0) = 2 \<and> length (buf ! 1) = 2 \<and>
      buf ! 0 ! 0 = Num 0 \<and> buf ! 0 ! 1 = Num (32767 / 32768) \<and>
      buf ! 1 ! 0 = Num (1 / 32768) \<and> buf ! 1 ! 1 = Num (- 1))"
proof -
  let ?pcm = "[0, 0, 1, 0, 255, 127, 0, 128 :: 8 word]"
  let ?b0 = "[[Num 0, Num 0], [Num 0, Num 0]]"
  have r: "replicate 2 x = [x, x]" for x :: "'a"
    by (simp add: numeral_2_eq_2)
  have h1: "length ?pcm = 2 * 4" by simp
  have h2: "(0::nat) < 2" by simp
  have h3: "(2::nat) dvd 4" by simp
  have h4: "createBuffer example_ctx 2 (Num (of_nat 4 / of_nat 2)) 24000 = Inr ?b0"
    by (simp add: example_ctx_def r)
  have h5: "length ?b0 = 2" by simp
  have h6: "\<forall>c<2. length (?b0 ! c) = 4 div 2"
  proof (intro allI impI)
    fix c :: nat assume "c < 2"
    then have "c = 0 \<or> c = 1" by auto
    then show "length (?b0 ! c) = 4 div 2" by auto
  qed
  from decodeAudioData_pcm16 [OF h1 h2 h3 h4 h5 h6]
  obtain buf where buf: "decodeAudioData ?pcm example_ctx 24000 2 = Inr buf" "length buf = 2"
    and all: "\<And>c i. c < 2 \<Longrightarrow> i < 4 div 2 \<Longrightarrow>
       length (buf ! c) = 4 div 2 \<and>
       buf ! c ! i = Num (of_int (le_int16 (?pcm ! (2 * (i * 2 + c))) (?pcm ! (2 * (i * 2 + c) + 1))) / 32768)"
    by blast
  have "length (buf ! 0) = 2" "length (buf ! 1) = 2"
    using all [of 0 0] all [of 1 0] by simp_all
  moreover have "buf ! 0 ! 0 = Num 0" using all [of 0 0] by (simp add: le_int16_def)
  moreover have "buf ! 0 ! 1 = Num (32767 / 32768)" using all [of 0 1] by (simp add: le_int16_def)
  moreover have "buf ! 1 ! 0 = Num (1 / 32768)" using all [of 1 0] by (simp add: le_int16_def)
  moreover have "buf ! 1 ! 1 = Num (- 1)" using all [of 1 1] by (simp add: le_int16_def)
  ultimately show ?thesis using h1 h4 buf by simp
qed

text \<open>A run in which no landmark is recognised.\<close>

theorem identify_unknown_fails_witness:
  "(hasSelectedApiKey (example_env unknown_ai) \<or> isApiKeyChecked idle_app) \<and>
   identifyLandmark (ai (example_env unknown_ai)) example_file = Inr ''Unknown'' \<and>
   state (processImage (example_env unknown_ai) example_file idle_app) = ERROR \<and>
   error (processImage (example_env unknown_ai) example_file idle_app) =
     Some ''Could not identify a landmark in this photo.'' \<and>
   service_calls (run_events idle_app (processImage (example_env unknown_ai) example_file idle_app))
     = [IdentifyLandmark example_file]"
proof -
  have g: "hasSelectedApiKey (example_env unknown_ai) \<or> isApiKeyChecked idle_app"
    by (rule example_key)
  have u: "identifyLandmark (ai (example_env unknown_ai)) example_file = Inr ''Unknown''"
    by (simp add: example_env_ai example_identify_unknown)
  from identify_unknown_fails [OF g u] g u show ?thesis by simp
qed

text \<open>A run in which the narrate response has no audio.\<close>

theorem narration_without_audio_fails_witness:
  "(hasSelectedApiKey (example_env silent_ai) \<or> isApiKeyChecked idle_app) \<and>
   identifyLandmark (ai (example_env silent_ai)) example_file = Inr ''Eiffel Tower'' \<and>
   getLandmarkHistory (ai (example_env silent_ai)) ''Eiffel Tower'' = Inr (''A tower.'', example_sources) \<and>
   ai (example_env silent_ai) (generateNarration_request ''A tower.'') = Inr (audio_response None) \<and>
   response_audioData (audio_response None) = None \<and>
   generateNarration (ai (example_env silent_ai)) ''A tower.''
     = Inl (Error (Some ''Audio generation failed'')) \<and>
   state (processImage (example_env silent_ai) example_file idle_app) = ERROR \<and>
   error (processImage (example_env silent_ai) example_file idle_app)
     = Some ''Audio generation failed'' \<and>
   analysis (processImage (example_env silent_ai) example_file idle_app) = None \<and>
   SetState PLAYING \<notin>
     set (run_events idle_app (processImage (example_env silent_ai) example_file idle_app))"
proof -
  have g: "hasSelectedApiKey (example_env silent_ai) \<or> isApiKeyChecked idle_app"
    by (rule example_key)
  have i: "identifyLandmark (ai (example_env silent_ai)) example_file = Inr ''Eiffel Tower''"
    by (simp add: example_env_ai silent_ai_def example_identify)
  have n: "''Eiffel Tower'' \<noteq> ''Unknown''" by simp
  have h: "getLandmarkHistory (ai (example_env silent_ai)) ''Eiffel Tower''
             = Inr (''A tower.'', example_sources)"
    by (simp add: example_env_ai silent_ai_def example_history)
  have r: "ai (example_env silent_ai) (generateNarration_request ''A tower.'')
             = Inr (audio_response None)"
    by (simp add: example_env_ai silent_ai_def scripted_ai_def generateNarration_request_def)
  have p: "response_audioData (audio_response None) = None
           \<or> response_audioData (audio_response None) = Some []"
    by (simp add: response_audioData_def audio_response_def opt_index_def)
  have p': "response_audioData (audio_response None) = None"
    by (simp add: response_audioData_def audio_response_def opt_index_def)
  from narration_without_audio_fails [OF g i n h r p] g i h r p' show ?thesis by simp
qed

text \<open>A run in which the research response has no text.\<close>

theorem history_fallback_proceeds_witness:
  "(hasSelectedApiKey (example_env textless_ai) \<or> isApiKeyChecked idle_app) \<and>
   identifyLandmark (ai (example_env textless_ai)) example_file = Inr ''Eiffel Tower'' \<and>
   ai (example_env textless_ai) (getLandmarkHistory_request ''Eiffel Tower'')
     = Inr (research_response None) \<and>
   response_text (research_response None) = None \<and>
   getLandmarkHistory (ai (example_env textless_ai)) ''Eiffel Tower''
     = Inr (''History unavailable.'', example_sources) \<and>
   run_events idle_app (processImage (example_env textless_ai) example_file idle_app) ! 8
     = Call (GenerateNarration ''History unavailable.'')"
proof -
  have g: "hasSelectedApiKey (example_env textless_ai) \<or> isApiKeyChecked idle_app"
    by (rule example_key)
  have i: "identifyLandmark (ai (example_env textless_ai)) example_file = Inr ''Eiffel Tower''"
    by (simp add: example_env_ai textless_ai_def example_identify)
  have n: "''Eiffel Tower'' \<noteq> ''Unknown''" by simp
  have r: "ai (example_env textless_ai) (getLandmarkHistory_request ''Eiffel Tower'')
             = Inr (research_response None)"
    by (simp add: example_env_ai textless_ai_def scripted_ai_def getLandmarkHistory_request_def)
  have e: "response_text (research_response None) = None
           \<or> response_text (research_response None) = Some []"
    by (simp add: research_response_def)
  have e': "response_text (research_response None) = None"
    by (simp add: research_response_def)
  have s: "response_sources (research_response None) = example_sources"
    by (simp add: service_defs example_defs)
  let ?ev = "run_events idle_app (processImage (example_env textless_ai) example_file idle_app)"
  from history_fallback_proceeds [OF g i n r e]
  have a: "getLandmarkHistory (ai (example_env textless_ai)) ''Eiffel Tower''
             = Inr (''History unavailable.'', response_sources (research_response None))"
    and t: "take 9 ?ev =
           [SetState LOADING_IMAGE, SetError None, SetAnalysis None,
            SetImagePreview (Some example_file), Call (IdentifyLandmark example_file),
            SetState SEARCHING_HISTORY, Call (GetLandmarkHistory ''Eiffel Tower''),
            SetState GENERATING_AUDIO, Call (GenerateNarration ''History unavailable.'')]"
    by simp_all
  have "?ev ! 8 = take 9 ?ev ! 8" by simp
  also have "\<dots> = Call (GenerateNarration ''History unavailable.'')"
    unfolding t by simp
  finally show ?thesis using g i r e' a s by simp
qed

text \<open>
  Of the three example chunks, the first and the third carry a web reference.
\<close>

theorem sources_are_web_references_witness:
  "example_ai (getLandmarkHistory_request ''Eiffel Tower'') = Inr (research_response (Some ''A tower.'')) \<and>
   response_groundingChunks (research_response (Some ''A tower.'')) = Some example_chunks \<and>
   web_references example_chunks = example_sources \<and>
   (\<exists>h. getLandmarkHistory example_ai ''Eiffel Tower'' = Inr (h, example_sources))"
proof -
  have r: "example_ai (getLandmarkHistory_request ''Eiffel Tower'')
             = Inr (research_response (Some ''A tower.''))"
    by (simp add: example_ai_def scripted_ai_def getLandmarkHistory_request_def)
  have c: "response_groundingChunks (research_response (Some ''A tower.'')) = Some example_chunks"
    by (simp add: response_groundingChunks_def research_response_def opt_index_def)
  have w: "web_references example_chunks = example_sources"
    by (simp add: example_chunks_def example_sources_def)
  from sources_are_web_references [of example_ai "''Eiffel Tower''", OF r c] r c w show ?thesis by simp
qed

text \<open>
  Claim C6 as first stated fails: the third example chunk has a web reference with no title,
  and the source made from it has no title either, not the empty string.
\<close>

theorem missing_title_counterexample:
  "web (example_chunks ! 2) = Some \<lparr> Web.title = None, Web.uri = Some ''https://www.toureiffel.paris'' \<rparr> \<and>
   getLandmarkHistory example_ai ''Eiffel Tower'' =
     Inr (''A tower.'',
          [ \<lparr> title = Some ''Wiki'', uri = Some ''https://en.wikipedia.org/wiki/Eiffel_Tower'' \<rparr>,
            \<lparr> title = None, uri = Some ''https://www.toureiffel.paris'' \<rparr> ]) \<and>
   SourceRef.title \<lparr> title = None, uri = Some ''https://www.toureiffel.paris'' \<rparr> \<noteq> Some []"
  by (simp add: example_chunks_def example_ai_def example_history example_sources_def)

text \<open>
  The titles of the example sources are the titles of the example web references.
\<close>

theorem source_title_verbatim_witness:
  "example_ai (getLandmarkHistory_request ''Eiffel Tower'') = Inr (research_response (Some ''A tower.'')) \<and>
   response_groundingChunks (research_response (Some ''A tower.'')) = Some example_chunks \<and>
   (\<exists>h srcs. getLandmarkHistory example_ai ''Eiffel Tower'' = Inr (h, srcs) \<and>
      map SourceRef.title srcs = [Some ''Wiki'', None])"
proof -
  have r: "example_ai (getLandmarkHistory_request ''Eiffel Tower'')
             = Inr (research_response (Some ''A tower.''))"
    by (simp add: example_ai_def scripted_ai_def getLandmarkHistory_request_def)
  have c: "response_groundingChunks (research_response (Some ''A tower.'')) = Some example_chunks"
    by (simp add: response_groundingChunks_def research_response_def opt_index_def)
  have m: "map Web.title (List.map_filter web example_chunks) = [Some ''Wiki'', None]"
    by (simp add: example_chunks_def List.map_filter_simps)
  from source_title_verbatim [of example_ai "''Eiffel Tower''", OF r c] r c m show ?thesis by simp
qed

text \<open>
  A rejected first call with the credential message, and an unrecognised landmark.
\<close>

theorem failure_classification_witness:
  "try_block (example_env expired_ai) example_file (setImagePreview (Some example_file) idle_app) =
     (Inl (Error (Some ''404 NOT_FOUND: Requested entity was not found.'')),
      emit (Call (IdentifyLandmark example_file)) (setImagePreview (Some example_file) idle_app)) \<and>
   includes_str ''404 NOT_FOUND: Requested entity was not found.'' ''Requested entity was not found'' \<and>
   state (onload (example_env expired_ai) example_file idle_app) = ERROR \<and>
   error (onload (example_env expired_ai) example_file idle_app) =
     Some ''API key session expired. Please select your key again.'' \<and>
   trace (onload (example_env expired_ai) example_file idle_app) =
     [SetImagePreview (Some example_file), Call (IdentifyLandmark example_file),
      SetError (Some ''API key session expired. Please select your key again.''),
      OpenSelectKey, SetIsApiKeyChecked True, SetState ERROR] \<and>
   try_block (example_env unknown_ai) example_file (setImagePreview (Some example_file) idle_app) =
     (Inl (Error (Some ''Could not identify a landmark in this photo.'')),
      emit (Call (IdentifyLandmark example_file)) (setImagePreview (Some example_file) idle_app)) \<and>
   \<not> includes_str ''Could not identify a landmark in this photo.'' ''Requested entity was not found'' \<and>
   state (onload (example_env unknown_ai) example_file idle_app) = ERROR \<and>
   error (onload (example_env unknown_ai) example_file idle_app) =
     Some ''Could not identify a landmark in this photo.'' \<and>
   OpenSelectKey \<notin> set (run_events idle_app (onload (example_env unknown_ai) example_file idle_app))"
proof -
  let ?w = "setImagePreview (Some example_file) idle_app"
  let ?e = "Error (Some ''404 NOT_FOUND: Requested entity was not found.'')"
  let ?u = "Error (Some ''Could not identify a landmark in this photo.'')"
  have i: "identifyLandmark (ai (example_env expired_ai)) example_file = Inl ?e"
    by (simp add: example_env_ai expired_ai_def scripted_ai_def identifyLandmark_def
        identifyLandmark_request_def)
  have t1: "try_block (example_env expired_ai) example_file ?w =
          (Inl ?e, emit (Call (IdentifyLandmark example_file)) ?w)"
    using i by (simp add: try_block_def)
  have m1: "includes_str ''404 NOT_FOUND: Requested entity was not found.''
              ''Requested entity was not found''"
    by simp
  then have x1: "\<exists>m. message ?e = Some m \<and> includes_str m ''Requested entity was not found''"
    by simp
  have u: "identifyLandmark (ai (example_env unknown_ai)) example_file = Inr ''Unknown''"
    by (simp add: example_env_ai example_identify_unknown)
  have t2: "try_block (example_env unknown_ai) example_file ?w =
          (Inl ?u, emit (Call (IdentifyLandmark example_file)) ?w)"
    by (rule try_block_unknown [OF u])
  have x2: "\<not> (\<exists>m. message ?u = Some m \<and> includes_str m ''Requested entity was not found'')"
    using not_expired_unknown by simp
  have tr: "trace (emit (Call (IdentifyLandmark example_file)) ?w) =
          [SetImagePreview (Some example_file), Call (IdentifyLandmark example_file)]"
    by (simp add: app_defs idle_app_def)
  from failure_classification [OF t1] x1
  have a: "state (onload (example_env expired_ai) example_file idle_app) = ERROR"
    "error (onload (example_env expired_ai) example_file idle_app) =
       Some ''API key session expired. Please select your key again.''"
    "trace (onload (example_env expired_ai) example_file idle_app) =
       trace (emit (Call (IdentifyLandmark example_file)) ?w) @
       [SetError (Some ''API key session expired. Please select your key again.''),
        OpenSelectKey, SetIsApiKeyChecked True, SetState ERROR]"
    by blast+
  from failure_classification [OF t2] x2
  have b: "state (onload (example_env unknown_ai) example_file idle_app) = ERROR"
    "error (onload (example_env unknown_ai) example_file idle_app) =
       Some (case message ?u of
               None \<Rightarrow> ''An unexpected error occurred.''
             | Some m \<Rightarrow> if m = [] then ''An unexpected error occurred.'' else m)"
    "OpenSelectKey \<notin> set (run_events idle_app (onload (example_env unknown_ai) example_file idle_app))"
    by blast+
  show ?thesis
    using t1 m1 a t2 not_expired_unknown b by (simp add: tr)
qed

text \<open>
  The successful run sets the analysis to null and then, once, to the complete analysis.
\<close>

theorem analysis_atomic_witness:
  "(hasSelectedApiKey (example_env example_ai) \<or> isApiKeyChecked playing_app) \<and>
   analysis_updates
     (run_events playing_app (processImage (example_env example_ai) example_file playing_app)) =
     [None, Some \<lparr> name = ''Eiffel Tower'', history = ''A tower.'',
                   sources = example_sources, audioData = Some ''AAABAP9/AIA='' \<rparr>] \<and>
   analysis (processImage (example_env example_ai) example_file playing_app) =
     Some \<lparr> name = ''Eiffel Tower'', history = ''A tower.'',
            sources = example_sources, audioData = Some ''AAABAP9/AIA='' \<rparr> \<and>
   state (processImage (example_env example_ai) example_file playing_app) = PLAYING"
proof -
  have g: "hasSelectedApiKey (example_env example_ai) \<or> isApiKeyChecked playing_app"
    by (rule example_key)
  let ?w' = "processImage (example_env example_ai) example_file playing_app"
  let ?a = "\<lparr> name = ''Eiffel Tower'', history = ''A tower.'',
              sources = example_sources, audioData = Some ''AAABAP9/AIA='' \<rparr>"
  have up: "analysis_updates (run_events playing_app ?w') = [None, Some ?a]"
    by (simp add: example_run)
  from analysis_atomic [OF g, of example_file] up
  obtain a where "analysis_updates (run_events playing_app ?w') = [None, Some a]"
    "analysis ?w' = Some a" "state ?w' = PLAYING"
    by auto
  with up g show ?thesis by simp
qed





text \<open>
  A session: a photo of the Eiffel Tower is narrated, the tour is finished, and a second
  photo is submitted in which no landmark is recognised.
\<close>

lemma example_first_run:
  "processImage (example_env example_ai) example_file initial_app =
     \<lparr> state = PLAYING, error = None,
       analysis = Some \<lparr> name = ''Eiffel Tower'', history = ''A tower.'',
                        sources = example_sources, audioData = Some ''AAABAP9/AIA='' \<rparr>,
       imagePreview = Some example_file,
       isApiKeyChecked = False, audioContextRef = Some example_ctx, audioSourceRef = Some 0,
       nodes = 1, playing = [0],
       trace =
         [SetState LOADING_IMAGE, SetError None, SetAnalysis None,
          SetImagePreview (Some example_file), Call (IdentifyLandmark example_file),
          SetState SEARCHING_HISTORY, Call (GetLandmarkHistory ''Eiffel Tower''),
          SetState GENERATING_AUDIO, Call (GenerateNarration ''A tower.''),
          SetAnalysis (Some \<lparr> name = ''Eiffel Tower'', history = ''A tower.'',
                        sources = example_sources, audioData = Some ''AAABAP9/AIA='' \<rparr>),
          SetState PLAYING,
          Start 0 [[Num 0, Num (1 / 32768), Num (32767 / 32768), Num (- 1)]]] \<rparr>"
proof -
  let ?a = "\<lparr> name = ''Eiffel Tower'', history = ''A tower.'',
              sources = example_sources, audioData = Some ''AAABAP9/AIA='' \<rparr>"
  have key: "hasSelectedApiKey (example_env example_ai) \<or> isApiKeyChecked initial_app"
    by (rule example_key)
  have tb: "try_block (example_env example_ai) example_file w =
     (Inr (),
      snd (playAudio (example_env example_ai) ''AAABAP9/AIA='' (setState PLAYING
        (setAnalysis (Some ?a)
          (emit (Call (GenerateNarration ''A tower.'')) (setState GENERATING_AUDIO
            (emit (Call (GetLandmarkHistory ''Eiffel Tower'')) (setState SEARCHING_HISTORY
              (emit (Call (IdentifyLandmark example_file)) w)))))))))" for w
    by (rule try_block_success)
       (simp_all add: example_ai_def example_env_def example_identify example_history example_narration)
  have run: "processImage (example_env example_ai) example_file initial_app =
      snd (playAudio (example_env example_ai) ''AAABAP9/AIA='' (setState PLAYING
        (setAnalysis (Some ?a)
          (emit (Call (GenerateNarration ''A tower.'')) (setState GENERATING_AUDIO
            (emit (Call (GetLandmarkHistory ''Eiffel Tower'')) (setState SEARCHING_HISTORY
              (emit (Call (IdentifyLandmark example_file))
                (submitted example_file initial_app)))))))))"
    by (simp add: processImage_keyed [OF key] tb)
  have env: "atob (example_env example_ai) = forgiving_atob"
    "newAudioContext (example_env example_ai) = example_ctx"
    by (simp_all add: example_env_def)
  show ?thesis
    unfolding run using example_decodeAudioData
    by (simp add: playAudio_def env example_decodeBase64 Let_def app_defs submitted_def
        initial_app_def)
qed

lemma example_finish:
  "handle FinishTour (processImage (example_env example_ai) example_file initial_app) =
     \<lparr> state = IDLE, error = None, analysis = None, imagePreview = None,
       isApiKeyChecked = False, audioContextRef = Some example_ctx, audioSourceRef = Some 0,
       nodes = 1, playing = [],
       trace =
         [SetState LOADING_IMAGE, SetError None, SetAnalysis None,
          SetImagePreview (Some example_file), Call (IdentifyLandmark example_file),
          SetState SEARCHING_HISTORY, Call (GetLandmarkHistory ''Eiffel Tower''),
          SetState GENERATING_AUDIO, Call (GenerateNarration ''A tower.''),
          SetAnalysis (Some \<lparr> name = ''Eiffel Tower'', history = ''A tower.'',
                        sources = example_sources, audioData = Some ''AAABAP9/AIA='' \<rparr>),
          SetState PLAYING,
          Start 0 [[Num 0, Num (1 / 32768), Num (32767 / 32768), Num (- 1)]],
          Stop 0, SetState IDLE, SetAnalysis None, SetImagePreview None] \<rparr>"
  unfolding example_first_run by (simp add: stopExperience_def app_defs)

lemma example_session:
  "trace (session [ChooseFile (example_env example_ai) example_file, FinishTour,
                   ChooseFile (example_env unknown_ai) example_file] initial_app) =
     [SetState LOADING_IMAGE, SetError None, SetAnalysis None,
      SetImagePreview (Some example_file), Call (IdentifyLandmark example_file),
      SetState SEARCHING_HISTORY, Call (GetLandmarkHistory ''Eiffel Tower''),
      SetState GENERATING_AUDIO, Call (GenerateNarration ''A tower.''),
      SetAnalysis (Some \<lparr> name = ''Eiffel Tower'', history = ''A tower.'',
                    sources = example_sources, audioData = Some ''AAABAP9/AIA='' \<rparr>),
      SetState PLAYING,
      Start 0 [[Num 0, Num (1 / 32768), Num (32767 / 32768), Num (- 1)]],
      Stop 0, SetState IDLE, SetAnalysis None, SetImagePreview None]
     @ SetState LOADING_IMAGE #
     [SetError None, SetAnalysis None,
      SetImagePreview (Some example_file), Call (IdentifyLandmark example_file),
      SetError (Some ''Could not identify a landmark in this photo.''), SetState ERROR]"
proof -
  let ?w2 = "handle FinishTour (processImage (example_env example_ai) example_file initial_app)"
  have st: "state initial_app = IDLE" by (simp add: initial_app_def)
  have st2: "state ?w2 = IDLE" unfolding example_finish by simp
  have u: "identifyLandmark (ai (example_env unknown_ai)) example_file = Inr ''Unknown''"
    by (simp add: example_env_ai example_identify_unknown)
  have no: "\<not> (\<exists>m. message (Error (Some ''Could not identify a landmark in this photo.'')) = Some m
                  \<and> includes_str m ''Requested entity was not found'')"
    using not_expired_unknown by simp
  have run: "processImage (example_env unknown_ai) example_file w =
        setState ERROR (setError (Some ''Could not identify a landmark in this photo.'')
          (emit (Call (IdentifyLandmark example_file)) (submitted example_file w)))" for w
    by (simp add: processImage_keyed [OF example_key] try_block_unknown [OF u]
        catch_block_generic [OF no] or_else_def)
  have "session [ChooseFile (example_env example_ai) example_file, FinishTour,
                 ChooseFile (example_env unknown_ai) example_file] initial_app =
        processImage (example_env unknown_ai) example_file ?w2"
    by (simp only: session.simps handle.simps(1) st st2 if_True simp_thms)
  then have "trace (session [ChooseFile (example_env example_ai) example_file, FinishTour,
                 ChooseFile (example_env unknown_ai) example_file] initial_app) =
        trace ?w2 @ [SetState LOADING_IMAGE, SetError None, SetAnalysis None,
            SetImagePreview (Some example_file), Call (IdentifyLandmark example_file),
            SetError (Some ''Could not identify a landmark in this photo.''), SetState ERROR]"
    by (simp only: run) (simp add: submitted_trace app_defs)
  then show ?thesis
    unfolding example_finish by simp
qed

text \<open>
  At the second reset of that session node 0, started in the first run, is no longer active:
  \<^verbatim>\<open>stopExperience\<close> has stopped it.
\<close>

theorem playback_stopped_before_reset_witness:
  "trace (session [ChooseFile (example_env example_ai) example_file, FinishTour,
                   ChooseFile (example_env unknown_ai) example_file] initial_app) =
     [SetState LOADING_IMAGE, SetError None, SetAnalysis None,
      SetImagePreview (Some example_file), Call (IdentifyLandmark example_file),
      SetState SEARCHING_HISTORY, Call (GetLandmarkHistory ''Eiffel Tower''),
      SetState GENERATING_AUDIO, Call (GenerateNarration ''A tower.''),
      SetAnalysis (Some \<lparr> name = ''Eiffel Tower'', history = ''A tower.'',
                    sources = example_sources, audioData = Some ''AAABAP9/AIA='' \<rparr>),
      SetState PLAYING,
      Start 0 [[Num 0, Num (1 / 32768), Num (32767 / 32768), Num (- 1)]],
      Stop 0, SetState IDLE, SetAnalysis None, SetImagePreview None]
     @ SetState LOADING_IMAGE #
     [SetError None, SetAnalysis None,
      SetImagePreview (Some example_file), Call (IdentifyLandmark example_file),
      SetError (Some ''Could not identify a landmark in this photo.''), SetState ERROR] \<and>
   active_nodes
     [SetState LOADING_IMAGE, SetError None, SetAnalysis None,
      SetImagePreview (Some example_file), Call (IdentifyLandmark example_file),
      SetState SEARCHING_HISTORY, Call (GetLandmarkHistory ''Eiffel Tower''),
      SetState GENERATING_AUDIO, Call (GenerateNarration ''A tower.''),
      SetAnalysis (Some \<lparr> name = ''Eiffel Tower'', history = ''A tower.'',
                    sources = example_sources, audioData = Some ''AAABAP9/AIA='' \<rparr>),
      SetState PLAYING,
      Start 0 [[Num 0, Num (1 / 32768), Num (32767 / 32768), Num (- 1)]],
      Stop 0, SetState IDLE, SetAnalysis None, SetImagePreview None] = []"
  using playback_stopped_before_reset [OF example_session] example_session by blast

end
